theory Spec2Isabelle
  imports Complex_Main "HOL-Library.AList" "HOL-Library.Product_Lexorder" "HOL-Library.Multiset"
begin

section \<open>Common conventions\<close>

text \<open>
  Python's \<open>datetime\<close> values are modelled as real numbers of seconds; every call of
  \<open>datetime.now()\<close> becomes an explicit clock reading passed to the function that makes it.
  Python floats are modelled as reals. Logging calls have no effect on the modelled state
  and are left out.
\<close>

type_synonym datetime = real

text \<open>The slice \<open>xs[-n:]\<close> of Python, for every integer \<open>n\<close> (also zero and negative).\<close>

definition py_last :: "int \<Rightarrow> 'a list \<Rightarrow> 'a list" where
  "py_last n xs =
     (if n > 0 then drop (length xs - nat n) xs
      else if n = 0 then xs
      else drop (nat (- n)) xs)"

section \<open>Safety state machine (core/state\_machine.py)\<close>

datatype SafetyState =
  INIT | NORMAL | WARNING | SLOW_50 | SLOW_25 | STOP | ESTOP | RECOVERY | FALLBACK

fun max_speed_percent :: "SafetyState \<Rightarrow> int" where
  "max_speed_percent INIT = 0"
| "max_speed_percent NORMAL = 100"
| "max_speed_percent WARNING = 100"
| "max_speed_percent SLOW_50 = 50"
| "max_speed_percent SLOW_25 = 25"
| "max_speed_percent STOP = 0"
| "max_speed_percent ESTOP = 0"
| "max_speed_percent RECOVERY = 10"
| "max_speed_percent FALLBACK = 50"

fun allows_production :: "SafetyState \<Rightarrow> bool" where
  "allows_production s = (s \<in> set [NORMAL, WARNING, SLOW_50, SLOW_25])"

fun VALID_TRANSITIONS :: "SafetyState \<Rightarrow> SafetyState list" where
  "VALID_TRANSITIONS INIT = [NORMAL, FALLBACK, ESTOP]"
| "VALID_TRANSITIONS NORMAL = [WARNING, SLOW_50, SLOW_25, STOP, ESTOP, FALLBACK]"
| "VALID_TRANSITIONS WARNING = [NORMAL, SLOW_50, SLOW_25, STOP, ESTOP, FALLBACK]"
| "VALID_TRANSITIONS SLOW_50 = [NORMAL, WARNING, SLOW_25, STOP, ESTOP, FALLBACK]"
| "VALID_TRANSITIONS SLOW_25 = [NORMAL, WARNING, SLOW_50, STOP, ESTOP, FALLBACK]"
| "VALID_TRANSITIONS STOP = [RECOVERY, ESTOP, FALLBACK]"
| "VALID_TRANSITIONS ESTOP = [RECOVERY]"
| "VALID_TRANSITIONS RECOVERY = [NORMAL, STOP, ESTOP, FALLBACK]"
| "VALID_TRANSITIONS FALLBACK = [NORMAL, RECOVERY, ESTOP]"

type_synonym py_dict = "(string \<times> string) list"

record StateTransition =
  from_state :: SafetyState
  to_state :: SafetyState
  tr_timestamp :: datetime
  trigger :: string
  rule_id :: "string option"
  tr_data :: py_dict

text \<open>
  The fields of \<open>SafetyStateMachine\<close>. The lock serialises the calls, so a call is one
  atomic step of the model.
\<close>

record SafetyStateMachine =
  current_state :: SafetyState
  previous_state :: "SafetyState option"
  max_history :: int
  history :: "StateTransition list"
  state_entered_at :: datetime

definition init_machine :: "datetime \<Rightarrow> SafetyState \<Rightarrow> int \<Rightarrow> SafetyStateMachine" where
  "init_machine now initial_state maxh =
     \<lparr>current_state = initial_state, previous_state = None, max_history = maxh,
      history = [], state_entered_at = now\<rparr>"

definition can_transition_to :: "SafetyStateMachine \<Rightarrow> SafetyState \<Rightarrow> bool" where
  "can_transition_to sm target_state =
     (if current_state sm = target_state then True
      else target_state \<in> set (VALID_TRANSITIONS (current_state sm)))"

text \<open>
  \<open>transition_to\<close> returns the machine after the call, the boolean the Python returns, and
  the transition the call emits (the one it appends to the history, logs as
  \<open>state_transition\<close> and hands to the \<open>on_transition\<close> callback), if any. The two clock
  readings of the accepting path (the transition's timestamp and \<open>_state_entered_at\<close>) are
  taken as the same instant \<open>now\<close>.
\<close>

definition transition_to ::
  "datetime \<Rightarrow> SafetyStateMachine \<Rightarrow> SafetyState \<Rightarrow> string \<Rightarrow> string option \<Rightarrow>
   py_dict option \<Rightarrow> bool \<Rightarrow> SafetyStateMachine \<times> bool \<times> StateTransition option" where
  "transition_to now sm target_state trig rid dat force =
     (if current_state sm = target_state then (sm, True, None)
      else if \<not> force \<and> \<not> can_transition_to sm target_state then (sm, False, None)
      else
        let transition = \<lparr>from_state = current_state sm, to_state = target_state,
                           tr_timestamp = now, trigger = trig, rule_id = rid,
                           tr_data = (case dat of None \<Rightarrow> [] | Some d \<Rightarrow> d)\<rparr>;
            h = history sm @ [transition]
        in (sm\<lparr>previous_state := Some (current_state sm),
                current_state := target_state,
                state_entered_at := now,
                history := (if int (length h) > max_history sm
                            then py_last (max_history sm) h else h)\<rparr>,
            True, Some transition))"

definition request_estop ::
  "datetime \<Rightarrow> SafetyStateMachine \<Rightarrow> string \<Rightarrow> string option \<Rightarrow>
   SafetyStateMachine \<times> bool \<times> StateTransition option" where
  "request_estop now sm trig rid = transition_to now sm ESTOP trig rid None True"

definition request_stop ::
  "datetime \<Rightarrow> SafetyStateMachine \<Rightarrow> string \<Rightarrow> string option \<Rightarrow>
   SafetyStateMachine \<times> bool \<times> StateTransition option" where
  "request_stop now sm trig rid = transition_to now sm STOP trig rid None False"

definition request_slow ::
  "datetime \<Rightarrow> SafetyStateMachine \<Rightarrow> int \<Rightarrow> string \<Rightarrow> string option \<Rightarrow>
   SafetyStateMachine \<times> bool \<times> StateTransition option" where
  "request_slow now sm speed_percent trig rid =
     (let target = (if speed_percent \<le> 25 then SLOW_25 else SLOW_50)
      in transition_to now sm target trig rid None False)"

definition request_recovery ::
  "datetime \<Rightarrow> SafetyStateMachine \<Rightarrow> string \<Rightarrow>
   SafetyStateMachine \<times> bool \<times> StateTransition option" where
  "request_recovery now sm trig = transition_to now sm RECOVERY trig None None False"

definition request_normal ::
  "datetime \<Rightarrow> SafetyStateMachine \<Rightarrow> string \<Rightarrow>
   SafetyStateMachine \<times> bool \<times> StateTransition option" where
  "request_normal now sm trig = transition_to now sm NORMAL trig None None False"

definition enter_fallback ::
  "datetime \<Rightarrow> SafetyStateMachine \<Rightarrow> string \<Rightarrow>
   SafetyStateMachine \<times> bool \<times> StateTransition option" where
  "enter_fallback now sm trig = transition_to now sm FALLBACK trig None None True"

text \<open>
  A call of the public interface of the machine, and a run of such calls, each with the
  clock reading at which it executes. The run returns the final machine and, in order,
  every emitted transition paired with the call that issued it.
\<close>

datatype call =
    TransitionTo SafetyState string "string option" "py_dict option" bool
  | RequestEstop string "string option"
  | RequestStop string "string option"
  | RequestSlow int string "string option"
  | RequestRecovery string
  | RequestNormal string
  | EnterFallback string

fun do_call ::
  "datetime \<Rightarrow> SafetyStateMachine \<Rightarrow> call \<Rightarrow>
   SafetyStateMachine \<times> bool \<times> StateTransition option" where
  "do_call now sm (TransitionTo target trig rid dat force) =
     transition_to now sm target trig rid dat force"
| "do_call now sm (RequestEstop trig rid) = request_estop now sm trig rid"
| "do_call now sm (RequestStop trig rid) = request_stop now sm trig rid"
| "do_call now sm (RequestSlow p trig rid) = request_slow now sm p trig rid"
| "do_call now sm (RequestRecovery trig) = request_recovery now sm trig"
| "do_call now sm (RequestNormal trig) = request_normal now sm trig"
| "do_call now sm (EnterFallback trig) = enter_fallback now sm trig"

fun run_calls ::
  "SafetyStateMachine \<Rightarrow> (datetime \<times> call) list \<Rightarrow>
   SafetyStateMachine \<times> (call \<times> StateTransition) list" where
  "run_calls sm [] = (sm, [])"
| "run_calls sm ((now, c) # cs) =
     (case do_call now sm c of
        (sm1, ok, em) \<Rightarrow>
          (case run_calls sm1 cs of
             (sm2, emitted) \<Rightarrow>
               (sm2, (case em of None \<Rightarrow> [] | Some t \<Rightarrow> [(c, t)]) @ emitted)))"

fun forced_directly :: "call \<Rightarrow> bool" where
  "forced_directly (TransitionTo target trig rid dat force) = force"
| "forced_directly c = False"

fun is_request_estop :: "call \<Rightarrow> bool" where
  "is_request_estop (RequestEstop trig rid) = True"
| "is_request_estop c = False"

fun is_enter_fallback :: "call \<Rightarrow> bool" where
  "is_enter_fallback (EnterFallback trig) = True"
| "is_enter_fallback c = False"

section \<open>Signal manager (core/signal\_manager.py)\<close>

text \<open>A signal value has Python type \<open>Any\<close>; the values the drivers push are these.\<close>

datatype py_value = PyNone | PyBool bool | PyInt int | PyFloat real | PyStr string

datatype SignalSource =
  ROBOT | PLC_SAFETY | SCANNER | VISION | FUMES | WELDING | WEARABLE | ROBOSAFE

datatype SignalQuality = GOOD | DEGRADED | BAD | TIMEOUT | UNKNOWN

record Signal =
  sig_id :: string
  sig_name :: string
  sig_source :: SignalSource
  sig_value :: py_value
  timestamp :: datetime
  quality :: SignalQuality
  sig_unit :: string
  min_value :: "real option"
  max_value :: "real option"
  fail_safe_value :: py_value

definition is_valid :: "Signal \<Rightarrow> bool" where
  "is_valid s = (quality s \<in> set [GOOD, DEGRADED])"

record SignalDefinition =
  def_id :: string
  def_name :: string
  def_source :: SignalSource
  data_type :: string
  def_unit :: string
  frequency_hz :: real
  timeout_ms :: real
  def_min_value :: "real option"
  def_max_value :: "real option"
  def_fail_safe_value :: py_value
  description :: string
  critical :: bool

text \<open>
  The two dictionaries of the manager are association lists in insertion order;
  \<open>AList.update\<close> is the dictionary assignment of Python (replace in place, or append a new
  key). Subscriber notification does not touch the store and is left out.
\<close>

record SignalManager =
  definitions :: "(string \<times> SignalDefinition) list"
  signals :: "(string \<times> Signal) list"
  update_count :: nat
  timeout_count :: nat

definition empty_manager :: SignalManager where
  "empty_manager = \<lparr>definitions = [], signals = [], update_count = 0, timeout_count = 0\<rparr>"

definition register_signal :: "datetime \<Rightarrow> SignalDefinition \<Rightarrow> SignalManager \<Rightarrow> SignalManager" where
  "register_signal now definition m =
     m\<lparr>definitions := AList.update (def_id definition) definition (definitions m),
       signals := AList.update (def_id definition)
         \<lparr>sig_id = def_id definition,
          sig_name = def_name definition,
          sig_source = def_source definition,
          sig_value = def_fail_safe_value definition,
          timestamp = now,
          quality = UNKNOWN,
          sig_unit = def_unit definition,
          min_value = def_min_value definition,
          max_value = def_max_value definition,
          fail_safe_value = def_fail_safe_value definition\<rparr> (signals m)\<rparr>"

definition update_signal ::
  "datetime \<Rightarrow> SignalManager \<Rightarrow> string \<Rightarrow> py_value \<Rightarrow> SignalQuality \<Rightarrow> datetime option \<Rightarrow>
   SignalManager \<times> bool" where
  "update_signal now m signal_id v q ts =
     (case map_of (definitions m) signal_id of
        None \<Rightarrow> (m, False)
      | Some definition \<Rightarrow>
          let signal = \<lparr>sig_id = signal_id,
                        sig_name = def_name definition,
                        sig_source = def_source definition,
                        sig_value = v,
                        timestamp = (case ts of None \<Rightarrow> now | Some t \<Rightarrow> t),
                        quality = q,
                        sig_unit = def_unit definition,
                        min_value = def_min_value definition,
                        max_value = def_max_value definition,
                        fail_safe_value = def_fail_safe_value definition\<rparr>
          in (m\<lparr>signals := AList.update signal_id signal (signals m),
                 update_count := update_count m + 1\<rparr>, True))"

definition get_signal :: "SignalManager \<Rightarrow> string \<Rightarrow> Signal option" where
  "get_signal m signal_id = map_of (signals m) signal_id"

definition get_signal_value :: "SignalManager \<Rightarrow> string \<Rightarrow> py_value \<Rightarrow> bool \<Rightarrow> py_value" where
  "get_signal_value m signal_id dflt use_failsafe_if_invalid =
     (case map_of (signals m) signal_id of
        None \<Rightarrow> dflt
      | Some signal \<Rightarrow>
          if \<not> is_valid signal \<and> use_failsafe_if_invalid then fail_safe_value signal
          else sig_value signal)"

text \<open>
  The watchdog pass \<open>_check_timeouts\<close>. The loop visits the entries of \<open>_signals\<close> in order
  and assigns to the key it is visiting, so it rewrites the entries one by one;
  \<open>timed_out\<close> is the observation it stores (built without \<open>min_value\<close> and \<open>max_value\<close>, which
  take their default \<open>None\<close>), \<open>expired\<close> is the test of its \<open>if\<close>.
\<close>

definition timed_out :: "string \<Rightarrow> Signal \<Rightarrow> Signal" where
  "timed_out signal_id signal =
     \<lparr>sig_id = signal_id,
      sig_name = sig_name signal,
      sig_source = sig_source signal,
      sig_value = fail_safe_value signal,
      timestamp = timestamp signal,
      quality = TIMEOUT,
      sig_unit = sig_unit signal,
      min_value = None,
      max_value = None,
      fail_safe_value = fail_safe_value signal\<rparr>"

definition expired :: "datetime \<Rightarrow> SignalDefinition \<Rightarrow> Signal \<Rightarrow> bool" where
  "expired now definition signal =
     ((now - timestamp signal) * 1000 > timeout_ms definition \<and> quality signal \<noteq> TIMEOUT)"

fun check_entries ::
  "datetime \<Rightarrow> (string \<times> SignalDefinition) list \<Rightarrow> (string \<times> Signal) list \<Rightarrow>
   (string \<times> Signal) list \<times> nat" where
  "check_entries now defs [] = ([], 0)"
| "check_entries now defs ((signal_id, signal) # rest) =
     (case check_entries now defs rest of
        (rest', n) \<Rightarrow>
          (case map_of defs signal_id of
             None \<Rightarrow> ((signal_id, signal) # rest', n)
           | Some definition \<Rightarrow>
               if expired now definition signal
               then ((signal_id, timed_out signal_id signal) # rest', n + 1)
               else ((signal_id, signal) # rest', n)))"

definition check_timeouts :: "datetime \<Rightarrow> SignalManager \<Rightarrow> SignalManager" where
  "check_timeouts now m =
     (case check_entries now (definitions m) (signals m) of
        (sigs, n) \<Rightarrow> m\<lparr>signals := sigs, timeout_count := timeout_count m + n\<rparr>)"

text \<open>
  An operation on the store, and a run of operations, each with the clock reading at which
  it executes. \<open>writes_signal k\<close> holds of the calls of \<open>register_signal\<close> and \<open>update_signal\<close>
  for the signal \<open>k\<close>.
\<close>

datatype store_op =
    Register SignalDefinition
  | Update string py_value SignalQuality "datetime option"
  | Watchdog

fun do_op :: "datetime \<Rightarrow> SignalManager \<Rightarrow> store_op \<Rightarrow> SignalManager" where
  "do_op now m (Register d) = register_signal now d m"
| "do_op now m (Update k v q ts) = fst (update_signal now m k v q ts)"
| "do_op now m Watchdog = check_timeouts now m"

fun run_ops :: "SignalManager \<Rightarrow> (datetime \<times> store_op) list \<Rightarrow> SignalManager" where
  "run_ops m [] = m"
| "run_ops m ((now, opn) # ops) = run_ops (do_op now m opn) ops"

fun writes_signal :: "string \<Rightarrow> store_op \<Rightarrow> bool" where
  "writes_signal k (Register d) = (def_id d = k)"
| "writes_signal k (Update k' v q ts) = (k' = k)"
| "writes_signal k Watchdog = False"

text \<open>The definition of \<open>plc_heartbeat\<close> in \<open>get_welding_cell_signals\<close>.\<close>

definition plc_heartbeat_definition :: SignalDefinition where
  "plc_heartbeat_definition =
     \<lparr>def_id = ''plc_heartbeat'', def_name = ''Heartbeat PLC'', def_source = PLC_SAFETY,
      data_type = ''int'', def_unit = '''', frequency_hz = 100, timeout_ms = 500,
      def_min_value = None, def_max_value = None, def_fail_safe_value = PyInt 0,
      description = '''', critical = True\<rparr>"

section \<open>Rule engine (core/rule\_engine.py)\<close>

datatype RulePriority = P0_CRITICAL | P1_HIGH | P2_MEDIUM | P3_LOW | P4_DIAGNOSTIC

text \<open>
  The constructors of the rule engine's \<open>ActionType\<close> carry the prefix \<open>A_\<close>, since several
  of its names are also states of the machine.
\<close>

datatype ActionType =
    A_ESTOP | A_STOP_CAT1 | A_SLOW_50 | A_SLOW_25 | A_ALERT | A_LOG
  | A_SET_DEGRADED | A_BLOCK_RESET | A_INCREASE_MARGIN

record RuleAction =
  action_type :: ActionType
  act_target :: "string option"
  act_message :: "string option"
  act_data :: py_dict

type_synonym snapshot = "(string \<times> py_value) list"

text \<open>
  A condition is a Python callable on the snapshot; \<open>None\<close> stands for a raised exception,
  which \<open>evaluate_rule\<close> traps.
\<close>

record Rule =
  rule_ident :: string
  rule_name :: string
  priority :: RulePriority
  condition :: "snapshot \<Rightarrow> bool option"
  actions :: "RuleAction list"
  enabled :: bool
  cooldown_ms :: real
  required_signals :: "string list"
  last_triggered :: "datetime option"
  trigger_count :: nat

record RuleResult =
  res_rule_id :: string
  triggered :: bool
  condition_values :: snapshot
  actions_executed :: "ActionType list"
  res_error :: bool

record RuleEngine =
  eng_trigger_count :: nat
  eng_error_count :: nat

definition can_trigger :: "datetime \<Rightarrow> Rule \<Rightarrow> bool" where
  "can_trigger now r =
     (case last_triggered r of
        None \<Rightarrow> True
      | Some t \<Rightarrow> if cooldown_ms r \<le> 0 then True else (now - t) * 1000 \<ge> cooldown_ms r)"

definition mark_triggered :: "datetime \<Rightarrow> Rule \<Rightarrow> Rule" where
  "mark_triggered now r = r\<lparr>last_triggered := Some now, trigger_count := trigger_count r + 1\<rparr>"

definition get_signal_values :: "SignalManager \<Rightarrow> snapshot" where
  "get_signal_values m = map (\<lambda>(signal_id, signal). (signal_id, sig_value signal)) (signals m)"

text \<open>\<open>s.get(k)\<close> and \<open>s.get(k, d)\<close> on a snapshot.\<close>

definition snap_get :: "snapshot \<Rightarrow> string \<Rightarrow> py_value \<Rightarrow> py_value" where
  "snap_get s k d = (case map_of s k of None \<Rightarrow> d | Some v \<Rightarrow> v)"

definition execute_action ::
  "datetime \<Rightarrow> SafetyStateMachine \<Rightarrow> string \<Rightarrow> RuleAction \<Rightarrow> SafetyStateMachine" where
  "execute_action now sm rid action =
     (if action_type action = A_ESTOP
      then fst (request_estop now sm (''Rule '' @ rid) (Some rid))
      else if action_type action = A_STOP_CAT1
      then fst (request_stop now sm (''Rule '' @ rid) (Some rid))
      else if action_type action = A_SLOW_50
      then fst (request_slow now sm 50 (''Rule '' @ rid) (Some rid))
      else if action_type action = A_SLOW_25
      then fst (request_slow now sm 25 (''Rule '' @ rid) (Some rid))
      else sm)"

fun execute_actions ::
  "datetime \<Rightarrow> SafetyStateMachine \<Rightarrow> string \<Rightarrow> RuleAction list \<Rightarrow> SafetyStateMachine" where
  "execute_actions now sm rid [] = sm"
| "execute_actions now sm rid (a # as) = execute_actions now (execute_action now sm rid a) rid as"

definition evaluate_rule ::
  "datetime \<Rightarrow> RuleEngine \<Rightarrow> SignalManager \<Rightarrow> SafetyStateMachine \<Rightarrow> Rule \<Rightarrow>
   RuleEngine \<times> SafetyStateMachine \<times> Rule \<times> RuleResult" where
  "evaluate_rule now eng m sm r =
     (let result = \<lparr>res_rule_id = rule_ident r, triggered = False, condition_values = [],
                     actions_executed = [], res_error = False\<rparr>
      in if \<not> enabled r then (eng, sm, r, result)
         else if \<not> can_trigger now r then (eng, sm, r, result)
         else
           let signal_values = get_signal_values m;
               result = result\<lparr>condition_values :=
                          map (\<lambda>sig. (sig, snap_get signal_values sig PyNone)) (required_signals r)\<rparr>
           in case condition r signal_values of
                None \<Rightarrow> (eng\<lparr>eng_error_count := eng_error_count eng + 1\<rparr>, sm, r,
                          result\<lparr>res_error := True\<rparr>)
              | Some tr \<Rightarrow>
                  if tr
                  then (eng\<lparr>eng_trigger_count := eng_trigger_count eng + 1\<rparr>,
                        execute_actions now sm (rule_ident r) (actions r),
                        mark_triggered now r,
                        result\<lparr>triggered := True,
                               actions_executed := map action_type (actions r)\<rparr>)
                  else (eng, sm, r, result))"

text \<open>
  Rule RS-002 of \<open>get_welding_cell_rules\<close>; its condition is
  \<open>lambda s: s.get("plc_heartbeat") is None\<close>.
\<close>

definition RS_002 :: Rule where
  "RS_002 =
     \<lparr>rule_ident = ''RS-002'', rule_name = ''PLC heartbeat timeout'', priority = P0_CRITICAL,
      condition = (\<lambda>s. Some (snap_get s ''plc_heartbeat'' PyNone = PyNone)),
      actions = [\<lparr>action_type = A_ESTOP, act_target = None,
                  act_message = Some ''PLC communication lost'', act_data = []\<rparr>,
                 \<lparr>action_type = A_ALERT, act_target = Some ''HSE,MAINT'',
                  act_message = None, act_data = []\<rparr>],
      enabled = True, cooldown_ms = 0, required_signals = [''plc_heartbeat''],
      last_triggered = None, trigger_count = 0\<rparr>"

section \<open>Analysis agent (agents/analysis\_agent.py)\<close>

datatype RiskLevel = NONE | LOW | MEDIUM | HIGH | CRITICAL

text \<open>
  \<open>RiskScore\<close> without its list of display strings (\<open>factors\<close>) and its timestamp. A stored
  signal is the dictionary of a normalised signal, of which the analysis reads the keys
  \<open>value\<close> (a float, always present) and \<open>quality\<close>.
\<close>

record RiskScore =
  rs_category :: string
  rs_level :: RiskLevel
  rs_score :: real
  rs_confidence :: real

record AnalysisSignal =
  an_value :: real
  an_quality :: string

type_synonym current_signals = "string \<rightharpoonup> AnalysisSignal"

definition an_get_signal_value :: "current_signals \<Rightarrow> string \<Rightarrow> real \<Rightarrow> real" where
  "an_get_signal_value cs signal_id dflt =
     (case cs signal_id of None \<Rightarrow> dflt | Some sig \<Rightarrow> an_value sig)"

text \<open>The time to collision; \<open>None\<close> is \<open>float('inf')\<close>, which is below no threshold.\<close>

definition time_to_collision :: "real \<Rightarrow> real \<Rightarrow> real option" where
  "time_to_collision distance robot_speed =
     (if robot_speed > 0 \<and> distance < 5000 then Some (distance / robot_speed) else None)"

fun ttc_below :: "real option \<Rightarrow> real \<Rightarrow> bool" where
  "ttc_below None x = False"
| "ttc_below (Some t) x = (t < x)"

definition calculate_collision_risk :: "current_signals \<Rightarrow> RiskScore" where
  "calculate_collision_risk cs =
     (let distance = an_get_signal_value cs ''scanner_min_distance'' 10000;
          robot_speed = an_get_signal_value cs ''fanuc_tcp_speed'' 0;
          ttc = time_to_collision distance robot_speed;
          (lv, sc) =
            (if ttc_below ttc 0.5 then (CRITICAL, 100)
             else if ttc_below ttc 1.0 then (HIGH, 80)
             else if ttc_below ttc 2.0 then (MEDIUM, 50)
             else if ttc_below ttc 5.0 then (LOW, 25)
             else (NONE, 0))
      in \<lparr>rs_category = ''collision'', rs_level = lv, rs_score = sc, rs_confidence = 0.85\<rparr>)"

section \<open>Decision agent (agents/decision\_agent.py)\<close>

text \<open>
  The decision agent's \<open>ActionType\<close> and \<open>ActionUrgency\<close> are integer enumerations; their
  constructors carry the prefixes \<open>D_\<close> and \<open>U_\<close>, since several of their names are already
  taken by the states of the machine and the risk levels.
\<close>

datatype DecisionActionType = D_NONE | D_LOG | D_ALERT | D_SLOW_50 | D_SLOW_25 | D_STOP | D_ESTOP

fun action_code :: "DecisionActionType \<Rightarrow> int" where
  "action_code D_NONE = 0"
| "action_code D_LOG = 1"
| "action_code D_ALERT = 2"
| "action_code D_SLOW_50 = 3"
| "action_code D_SLOW_25 = 4"
| "action_code D_STOP = 5"
| "action_code D_ESTOP = 6"

datatype ActionUrgency = U_LOW | U_NORMAL | U_HIGH | U_IMMEDIATE

record DecisionConfig =
  threshold_alert :: real
  threshold_slow_50 :: real
  threshold_slow_25 :: real
  threshold_stop :: real
  threshold_estop :: real
  min_confidence :: real
  action_cooldown_s :: real
  auto_execute_enabled :: bool

definition default_decision_config :: DecisionConfig where
  "default_decision_config =
     \<lparr>threshold_alert = 25, threshold_slow_50 = 50, threshold_slow_25 = 65,
      threshold_stop = 80, threshold_estop = 95, min_confidence = 0.7,
      action_cooldown_s = 2.0, auto_execute_enabled = True\<rparr>"

text \<open>
  The global risk is the dictionary received in a \<open>risk_update\<close> message; a key that is absent
  is \<open>None\<close> here. Its keys \<open>level\<close> and \<open>factors\<close> do not enter the decision and are left
  out. The category risks keep only the \<open>score\<close> key that the agent reads.
\<close>

record GlobalRisk =
  g_score :: "real option"
  g_confidence :: "real option"

record DecisionAgent =
  dec_config :: DecisionConfig
  global_risk :: GlobalRisk
  current_risks :: "(string \<times> real option) list"
  action_id :: nat

text \<open>
  \<open>ActionRecommendation\<close> without its formatted \<open>reason\<close> string; \<open>rec_number\<close> is the counter
  value that the Python formats into the identifier \<open>REC-nnnnn\<close>.
\<close>

record ActionRecommendation =
  rec_number :: nat
  rec_action :: DecisionActionType
  rec_urgency :: ActionUrgency
  risk_category :: string
  risk_score :: real
  rec_confidence :: real
  rec_timestamp :: datetime
  suppression_duration_s :: real
  requires_ack :: bool
  auto_execute :: bool

definition determine_action :: "DecisionConfig \<Rightarrow> real \<Rightarrow> DecisionActionType \<times> ActionUrgency" where
  "determine_action cfg sc =
     (if sc \<ge> threshold_estop cfg then (D_ESTOP, U_IMMEDIATE)
      else if sc \<ge> threshold_stop cfg then (D_STOP, U_IMMEDIATE)
      else if sc \<ge> threshold_slow_25 cfg then (D_SLOW_25, U_HIGH)
      else if sc \<ge> threshold_slow_50 cfg then (D_SLOW_50, U_HIGH)
      else if sc \<ge> threshold_alert cfg then (D_ALERT, U_NORMAL)
      else (D_NONE, U_LOW))"

fun dominant_loop :: "(string \<times> real option) list \<Rightarrow> real \<Rightarrow> string \<Rightarrow> string" where
  "dominant_loop [] max_score dominant = dominant"
| "dominant_loop ((cat, risk) # rest) max_score dominant =
     (let sc = (case risk of None \<Rightarrow> 0 | Some x \<Rightarrow> x)
      in if sc > max_score then dominant_loop rest sc cat
         else dominant_loop rest max_score dominant)"

definition find_dominant_risk :: "DecisionAgent \<Rightarrow> string" where
  "find_dominant_risk ag =
     (if current_risks ag = [] then ''unknown''
      else dominant_loop (current_risks ag) 0 ''unknown'')"

definition can_auto_execute :: "DecisionConfig \<Rightarrow> DecisionActionType \<Rightarrow> bool" where
  "can_auto_execute cfg a =
     (if \<not> auto_execute_enabled cfg then False
      else action_code a \<ge> action_code D_SLOW_50)"

definition evaluate_and_recommend ::
  "datetime \<Rightarrow> DecisionAgent \<Rightarrow> ActionRecommendation option \<times> DecisionAgent" where
  "evaluate_and_recommend now ag =
     (let sc = (case g_score (global_risk ag) of None \<Rightarrow> 0 | Some x \<Rightarrow> x);
          conf = (case g_confidence (global_risk ag) of None \<Rightarrow> 0 | Some x \<Rightarrow> x)
      in if conf < min_confidence (dec_config ag) then (None, ag)
         else
           let (a, u) = determine_action (dec_config ag) sc
           in if a = D_NONE then (None, ag)
              else
                let dominant_risk = find_dominant_risk ag;
                    ag' = ag\<lparr>action_id := action_id ag + 1\<rparr>
                in (Some \<lparr>rec_number = action_id ag',
                           rec_action = a,
                           rec_urgency = u,
                           risk_category = dominant_risk,
                           risk_score = sc,
                           rec_confidence = conf,
                           rec_timestamp = now,
                           suppression_duration_s = action_cooldown_s (dec_config ag),
                           requires_ack = (action_code a \<ge> action_code D_STOP),
                           auto_execute = can_auto_execute (dec_config ag) a\<rparr>, ag'))"

section \<open>Orchestrator agent (agents/orchestrator\_agent.py)\<close>

text \<open>
  A pending recommendation is a dictionary; the arbitration reads the keys \<open>urgency\<close>,
  \<open>risk_score\<close> and \<open>received_at\<close> with \<open>get\<close>, so an absent key is \<open>None\<close> here.
\<close>

record Recommendation =
  p_id :: string
  p_action :: string
  p_urgency :: "string option"
  p_risk_score :: "real option"
  p_received_at :: "datetime option"

definition urgency_order :: "string \<rightharpoonup> nat" where
  "urgency_order =
     map_of [(''IMMEDIATE'', 0), (''HIGH'', 1), (''NORMAL'', 2), (''LOW'', 3)]"

text \<open>The sort key \<open>lambda r: (...)\<close> and the three values it reads.\<close>

definition urgency_key :: "Recommendation \<Rightarrow> nat" where
  "urgency_key r =
     (case urgency_order (case p_urgency r of None \<Rightarrow> ''LOW'' | Some u \<Rightarrow> u) of
        None \<Rightarrow> 4 | Some n \<Rightarrow> n)"

definition risk_score_of :: "Recommendation \<Rightarrow> real" where
  "risk_score_of r = (case p_risk_score r of None \<Rightarrow> 0 | Some x \<Rightarrow> x)"

definition received_key :: "datetime \<Rightarrow> Recommendation \<Rightarrow> datetime" where
  "received_key now r = (case p_received_at r of None \<Rightarrow> now | Some t \<Rightarrow> t)"

definition arbitration_key :: "datetime \<Rightarrow> Recommendation \<Rightarrow> nat \<times> real \<times> real" where
  "arbitration_key now r = (urgency_key r, - risk_score_of r, received_key now r)"

text \<open>
  \<open>_arbitrate_recommendations\<close> returns the selected recommendation and the pending list it
  leaves behind. Python's \<open>sorted\<close> is a stable sort by the key, tuples being compared
  lexicographically; \<open>sort_key\<close> is the stable sort of the library, on the lexicographic
  order of triples.
\<close>

definition arbitrate_recommendations ::
  "datetime \<Rightarrow> Recommendation list \<Rightarrow> Recommendation option \<times> Recommendation list" where
  "arbitrate_recommendations now pending =
     (if pending = [] then (None, pending)
      else
        let sorted_recs = sort_key (arbitration_key now) pending;
            selected = (if sorted_recs \<noteq> [] then Some (hd sorted_recs) else None)
        in (selected, []))"

section \<open>Properties of the safety state machine\<close>

lemma can_transition_to_iff:
  "can_transition_to sm target \<longleftrightarrow>
     target = current_state sm \<or> target \<in> set (VALID_TRANSITIONS (current_state sm))"
  by (auto simp: can_transition_to_def)

lemma set_py_last: "set (py_last n xs) \<subseteq> set xs"
  by (auto simp: py_last_def dest: in_set_dropD)

lemma transition_to_emitted:
  assumes "transition_to now sm target trig rid dat force = (sm', ok, em)"
  shows "(em = None \<and> sm' = sm) \<or>
         (\<exists>t. em = Some t \<and> from_state t = current_state sm \<and> to_state t = target \<and>
              current_state sm' = target \<and> target \<noteq> current_state sm \<and>
              (force \<or> target \<in> set (VALID_TRANSITIONS (current_state sm))) \<and>
              set (history sm') \<subseteq> insert t (set (history sm)))"
proof (cases "current_state sm = target")
  case True
  with assms show ?thesis by (simp add: transition_to_def)
next
  case False
  note neq = this
  show ?thesis
  proof (cases "\<not> force \<and> \<not> can_transition_to sm target")
    case True
    with neq assms show ?thesis by (simp add: transition_to_def)
  next
    case False
    define t where "t = \<lparr>from_state = current_state sm, to_state = target,
                           tr_timestamp = now, trigger = trig, rule_id = rid,
                           tr_data = (case dat of None \<Rightarrow> [] | Some d \<Rightarrow> d)\<rparr>"
    from neq False assms have em: "em = Some t"
      and sm': "sm' = sm\<lparr>previous_state := Some (current_state sm),
                current_state := target,
                state_entered_at := now,
                history := (if int (length (history sm @ [t])) > max_history sm
                            then py_last (max_history sm) (history sm @ [t]) else history sm @ [t])\<rparr>"
      by (auto simp: transition_to_def Let_def t_def)
    have h: "set (history sm') \<subseteq> insert t (set (history sm))"
      using set_py_last[of "max_history sm" "history sm @ [t]"] by (auto simp: sm')
    have f: "force \<or> target \<in> set (VALID_TRANSITIONS (current_state sm))"
      using False neq by (auto simp: can_transition_to_def)
    have "from_state t = current_state sm" "to_state t = target" by (simp_all add: t_def)
    moreover have "current_state sm' = target" by (simp add: sm')
    ultimately show ?thesis using em h f neq by auto
  qed
qed

lemma do_call_emitted:
  assumes "do_call now sm c = (sm', ok, em)" and "\<not> forced_directly c"
  shows "(em = None \<and> sm' = sm) \<or>
         (\<exists>t. em = Some t \<and> from_state t = current_state sm \<and>
              to_state t = current_state sm' \<and>
              set (history sm') \<subseteq> insert t (set (history sm)) \<and>
              (to_state t \<in> set (VALID_TRANSITIONS (from_state t)) \<or>
               (is_request_estop c \<and> to_state t = ESTOP) \<or>
               (is_enter_fallback c \<and> to_state t = FALLBACK)))"
proof (cases c)
  case (TransitionTo target trig rid dat force)
  with assms transition_to_emitted[of now sm target trig rid dat force sm' ok em]
  show ?thesis by auto
next
  case (RequestEstop trig rid)
  with assms transition_to_emitted[of now sm ESTOP trig rid None True sm' ok em]
  show ?thesis by (auto simp: request_estop_def)
next
  case (RequestStop trig rid)
  with assms transition_to_emitted[of now sm STOP trig rid None False sm' ok em]
  show ?thesis by (auto simp: request_stop_def)
next
  case (RequestSlow p trig rid)
  with assms transition_to_emitted[of now sm "if p \<le> 25 then SLOW_25 else SLOW_50" trig rid None False sm' ok em]
  show ?thesis by (auto simp: request_slow_def Let_def)
next
  case (RequestRecovery trig)
  with assms transition_to_emitted[of now sm RECOVERY trig None None False sm' ok em]
  show ?thesis by (auto simp: request_recovery_def)
next
  case (RequestNormal trig)
  with assms transition_to_emitted[of now sm NORMAL trig None None False sm' ok em]
  show ?thesis by (auto simp: request_normal_def)
next
  case (EnterFallback trig)
  with assms transition_to_emitted[of now sm FALLBACK trig None None True sm' ok em]
  show ?thesis by (auto simp: enter_fallback_def)
qed

lemma do_call_states:
  assumes "do_call now sm c = (sm', ok, em)"
  shows "(em = None \<and> sm' = sm) \<or>
         (\<exists>t. em = Some t \<and> from_state t = current_state sm \<and>
              to_state t = current_state sm')"
proof (cases c)
  case (TransitionTo target trig rid dat force)
  with assms transition_to_emitted[of now sm target trig rid dat force sm' ok em]
  show ?thesis by auto
next
  case (RequestEstop trig rid)
  with assms transition_to_emitted[of now sm ESTOP trig rid None True sm' ok em]
  show ?thesis by (auto simp: request_estop_def)
next
  case (RequestStop trig rid)
  with assms transition_to_emitted[of now sm STOP trig rid None False sm' ok em]
  show ?thesis by (auto simp: request_stop_def)
next
  case (RequestSlow p trig rid)
  with assms transition_to_emitted[of now sm "if p \<le> 25 then SLOW_25 else SLOW_50" trig rid None False sm' ok em]
  show ?thesis by (auto simp: request_slow_def Let_def)
next
  case (RequestRecovery trig)
  with assms transition_to_emitted[of now sm RECOVERY trig None None False sm' ok em]
  show ?thesis by (auto simp: request_recovery_def)
next
  case (RequestNormal trig)
  with assms transition_to_emitted[of now sm NORMAL trig None None False sm' ok em]
  show ?thesis by (auto simp: request_normal_def)
next
  case (EnterFallback trig)
  with assms transition_to_emitted[of now sm FALLBACK trig None None True sm' ok em]
  show ?thesis by (auto simp: enter_fallback_def)
qed

lemma run_calls_speed:
  assumes "\<forall>(c, t) \<in> set (snd (run_calls sm cs)).
             max_speed_percent (to_state t) \<le> max_speed_percent (from_state t)"
  shows "max_speed_percent (current_state (fst (run_calls sm cs)))
           \<le> max_speed_percent (current_state sm)"
  using assms
proof (induction cs arbitrary: sm)
  case Nil
  then show ?case by simp
next
  case (Cons nc cs)
  obtain now c where nc: "nc = (now, c)" by (cases nc)
  obtain sm1 ok em where d: "do_call now sm c = (sm1, ok, em)" by (cases "do_call now sm c")
  obtain sm2 es where r: "run_calls sm1 cs = (sm2, es)" by (cases "run_calls sm1 cs")
  have run: "run_calls sm (nc # cs) = (sm2, (case em of None \<Rightarrow> [] | Some t \<Rightarrow> [(c, t)]) @ es)"
    by (simp add: nc d r)
  from Cons.prems run r
  have tl: "\<forall>(c, t) \<in> set (snd (run_calls sm1 cs)).
              max_speed_percent (to_state t) \<le> max_speed_percent (from_state t)"
    by auto
  have le2: "max_speed_percent (current_state sm2) \<le> max_speed_percent (current_state sm1)"
    using Cons.IH[OF tl] r by simp
  have le1: "max_speed_percent (current_state sm1) \<le> max_speed_percent (current_state sm)"
  proof (cases em)
    case None
    with do_call_states[OF d] show ?thesis by auto
  next
    case (Some t)
    with do_call_states[OF d] have "from_state t = current_state sm" "to_state t = current_state sm1"
      by auto
    moreover from Cons.prems run Some
    have "max_speed_percent (to_state t) \<le> max_speed_percent (from_state t)" by auto
    ultimately show ?thesis by simp
  qed
  from le1 le2 run show ?case by simp
qed

lemma table_speed:
  "s' \<in> set (VALID_TRANSITIONS s) \<Longrightarrow> s \<noteq> RECOVERY \<Longrightarrow> s' \<noteq> RECOVERY \<Longrightarrow>
   (max_speed_percent s' \<le> max_speed_percent s \<longleftrightarrow>
    (s, s') \<notin> {(INIT, NORMAL), (INIT, FALLBACK), (SLOW_50, NORMAL), (SLOW_50, WARNING),
                 (SLOW_25, NORMAL), (SLOW_25, WARNING), (SLOW_25, SLOW_50),
                 (SLOW_25, FALLBACK), (STOP, FALLBACK), (FALLBACK, NORMAL)})"
  by (cases s; cases s'; simp)

lemma run_calls_legal:
  assumes "\<forall>(now, c) \<in> set cs. \<not> forced_directly c"
  shows "(\<forall>(c, t) \<in> set (snd (run_calls sm cs)).
            to_state t \<in> set (VALID_TRANSITIONS (from_state t)) \<or>
            (is_request_estop c \<and> to_state t = ESTOP) \<or>
            (is_enter_fallback c \<and> to_state t = FALLBACK)) \<and>
         set (history (fst (run_calls sm cs)))
           \<subseteq> set (history sm) \<union> snd ` set (snd (run_calls sm cs))"
  using assms
proof (induction cs arbitrary: sm)
  case Nil
  then show ?case by simp
next
  case (Cons nc cs)
  obtain now c where nc: "nc = (now, c)" by (cases nc)
  obtain sm1 ok em where d: "do_call now sm c = (sm1, ok, em)" by (cases "do_call now sm c")
  obtain sm2 es where r: "run_calls sm1 cs = (sm2, es)" by (cases "run_calls sm1 cs")
  have run: "run_calls sm (nc # cs) = (sm2, (case em of None \<Rightarrow> [] | Some t \<Rightarrow> [(c, t)]) @ es)"
    by (simp add: nc d r)
  from Cons.prems nc have nf: "\<not> forced_directly c"
    and tl: "\<forall>(now, c) \<in> set cs. \<not> forced_directly c" by auto
  from Cons.IH[OF tl, of sm1] r
  have ih1: "\<forall>(c, t) \<in> set es.
            to_state t \<in> set (VALID_TRANSITIONS (from_state t)) \<or>
            (is_request_estop c \<and> to_state t = ESTOP) \<or>
            (is_enter_fallback c \<and> to_state t = FALLBACK)"
    and ih2: "set (history sm2) \<subseteq> set (history sm1) \<union> snd ` set es" by auto
  show ?case
  proof (cases em)
    case None
    with do_call_emitted[OF d nf] have "sm1 = sm" by auto
    with None ih1 ih2 run show ?thesis by simp
  next
    case (Some t)
    with do_call_emitted[OF d nf]
    have h: "set (history sm1) \<subseteq> insert t (set (history sm))"
      and l: "to_state t \<in> set (VALID_TRANSITIONS (from_state t)) \<or>
               (is_request_estop c \<and> to_state t = ESTOP) \<or>
               (is_enter_fallback c \<and> to_state t = FALLBACK)" by auto
    from h ih2 have "set (history sm2) \<subseteq> set (history sm) \<union> snd ` set ((c, t) # es)"
      by auto
    with Some ih1 l run show ?thesis by simp
  qed
qed

text \<open>
  Claim C2, as stated, fails on the transition table: leaving \<open>INIT\<close> for \<open>NORMAL\<close> is a
  legal, non-forced transition that avoids \<open>RECOVERY\<close> and raises the speed limit from 0
  to 100.
\<close>

theorem max_speed_raised_by_legal_transition:
  "transition_to 1 (init_machine 0 INIT 1000) NORMAL ''init_complete'' None None False =
     (\<lparr>current_state = NORMAL, previous_state = Some INIT, max_history = 1000,
       history = [\<lparr>from_state = INIT, to_state = NORMAL, tr_timestamp = 1,
                   trigger = ''init_complete'', rule_id = None, tr_data = []\<rparr>],
       state_entered_at = 1\<rparr>, True,
      Some \<lparr>from_state = INIT, to_state = NORMAL, tr_timestamp = 1,
            trigger = ''init_complete'', rule_id = None, tr_data = []\<rparr>) \<and>
   NORMAL \<in> set (VALID_TRANSITIONS INIT) \<and> INIT \<noteq> RECOVERY \<and> NORMAL \<noteq> RECOVERY \<and>
   \<not> max_speed_percent NORMAL \<le> max_speed_percent INIT"
  by (simp add: init_machine_def transition_to_def can_transition_to_def Let_def)

text \<open>
  Claim C2, amended: on a legal transition that avoids \<open>RECOVERY\<close> the speed limit does not
  increase exactly when the transition is not one of the ten table entries that raise it
  (start-up and de-escalation); consequently, along any run of calls whose emitted
  transitions are table entries that avoid \<open>RECOVERY\<close> and those ten entries, the speed limit
  of the final state is at most that of the initial state.
\<close>

theorem max_speed_non_increasing_off_raising_entries:
  "(\<forall>s s'. s' \<in> set (VALID_TRANSITIONS s) \<and> s \<noteq> RECOVERY \<and> s' \<noteq> RECOVERY \<longrightarrow>
      (max_speed_percent s' \<le> max_speed_percent s \<longleftrightarrow>
       (s, s') \<notin> {(INIT, NORMAL), (INIT, FALLBACK), (SLOW_50, NORMAL), (SLOW_50, WARNING),
                    (SLOW_25, NORMAL), (SLOW_25, WARNING), (SLOW_25, SLOW_50),
                    (SLOW_25, FALLBACK), (STOP, FALLBACK), (FALLBACK, NORMAL)})) \<and>
   ((\<forall>(c, t) \<in> set (snd (run_calls sm cs)).
        to_state t \<in> set (VALID_TRANSITIONS (from_state t)) \<and>
        from_state t \<noteq> RECOVERY \<and> to_state t \<noteq> RECOVERY \<and>
        (from_state t, to_state t) \<notin>
          {(INIT, NORMAL), (INIT, FALLBACK), (SLOW_50, NORMAL), (SLOW_50, WARNING),
           (SLOW_25, NORMAL), (SLOW_25, WARNING), (SLOW_25, SLOW_50),
           (SLOW_25, FALLBACK), (STOP, FALLBACK), (FALLBACK, NORMAL)}) \<longrightarrow>
      max_speed_percent (current_state (fst (run_calls sm cs)))
        \<le> max_speed_percent (current_state sm))"
proof (intro conjI allI impI)
  fix s s'
  assume h: "s' \<in> set (VALID_TRANSITIONS s) \<and> s \<noteq> RECOVERY \<and> s' \<noteq> RECOVERY"
  show "max_speed_percent s' \<le> max_speed_percent s \<longleftrightarrow>
       (s, s') \<notin> {(INIT, NORMAL), (INIT, FALLBACK), (SLOW_50, NORMAL), (SLOW_50, WARNING),
                    (SLOW_25, NORMAL), (SLOW_25, WARNING), (SLOW_25, SLOW_50),
                    (SLOW_25, FALLBACK), (STOP, FALLBACK), (FALLBACK, NORMAL)}"
    by (rule table_speed) (use h in simp_all)
next
  assume a: "\<forall>(c, t) \<in> set (snd (run_calls sm cs)).
        to_state t \<in> set (VALID_TRANSITIONS (from_state t)) \<and>
        from_state t \<noteq> RECOVERY \<and> to_state t \<noteq> RECOVERY \<and>
        (from_state t, to_state t) \<notin>
          {(INIT, NORMAL), (INIT, FALLBACK), (SLOW_50, NORMAL), (SLOW_50, WARNING),
           (SLOW_25, NORMAL), (SLOW_25, WARNING), (SLOW_25, SLOW_50),
           (SLOW_25, FALLBACK), (STOP, FALLBACK), (FALLBACK, NORMAL)}"
  have "\<forall>(c, t) \<in> set (snd (run_calls sm cs)).
             max_speed_percent (to_state t) \<le> max_speed_percent (from_state t)"
  proof (clarify)
    fix c t assume m: "(c, t) \<in> set (snd (run_calls sm cs))"
    from bspec[OF a m] have c: "to_state t \<in> set (VALID_TRANSITIONS (from_state t)) \<and>
        from_state t \<noteq> RECOVERY \<and> to_state t \<noteq> RECOVERY \<and>
        (from_state t, to_state t) \<notin>
          {(INIT, NORMAL), (INIT, FALLBACK), (SLOW_50, NORMAL), (SLOW_50, WARNING),
           (SLOW_25, NORMAL), (SLOW_25, WARNING), (SLOW_25, SLOW_50),
           (SLOW_25, FALLBACK), (STOP, FALLBACK), (FALLBACK, NORMAL)}"
      unfolding case_prod_conv .
    have "max_speed_percent (to_state t) \<le> max_speed_percent (from_state t) \<longleftrightarrow>
        (from_state t, to_state t) \<notin>
          {(INIT, NORMAL), (INIT, FALLBACK), (SLOW_50, NORMAL), (SLOW_50, WARNING),
           (SLOW_25, NORMAL), (SLOW_25, WARNING), (SLOW_25, SLOW_50),
           (SLOW_25, FALLBACK), (STOP, FALLBACK), (FALLBACK, NORMAL)}"
      by (rule table_speed) (use c in blast)+
    moreover note conjunct2[OF conjunct2[OF conjunct2[OF c]]]
    ultimately show "max_speed_percent (to_state t) \<le> max_speed_percent (from_state t)"
      by (rule iffD2)
  qed
  then show "max_speed_percent (current_state (fst (run_calls sm cs)))
        \<le> max_speed_percent (current_state sm)" by (rule run_calls_speed)
qed

theorem max_speed_non_increasing_witness:
  "STOP \<in> set (VALID_TRANSITIONS SLOW_50) \<and> SLOW_50 \<noteq> RECOVERY \<and> STOP \<noteq> RECOVERY \<and>
   max_speed_percent STOP \<le> max_speed_percent SLOW_50 \<and>
   NORMAL \<in> set (VALID_TRANSITIONS SLOW_50) \<and> NORMAL \<noteq> RECOVERY \<and>
   \<not> max_speed_percent NORMAL \<le> max_speed_percent SLOW_50 \<and>
   snd (run_calls (init_machine 0 NORMAL 1000)
          [(1, RequestSlow 50 ''Rule RS-020'' (Some ''RS-020'')),
           (2, RequestStop ''Rule RS-010'' (Some ''RS-010''))]) =
     [(RequestSlow 50 ''Rule RS-020'' (Some ''RS-020''),
       \<lparr>from_state = NORMAL, to_state = SLOW_50, tr_timestamp = 1,
        trigger = ''Rule RS-020'', rule_id = Some ''RS-020'', tr_data = []\<rparr>),
      (RequestStop ''Rule RS-010'' (Some ''RS-010''),
       \<lparr>from_state = SLOW_50, to_state = STOP, tr_timestamp = 2,
        trigger = ''Rule RS-010'', rule_id = Some ''RS-010'', tr_data = []\<rparr>)] \<and>
   max_speed_percent (current_state (fst (run_calls (init_machine 0 NORMAL 1000)
          [(1, RequestSlow 50 ''Rule RS-020'' (Some ''RS-020'')),
           (2, RequestStop ''Rule RS-010'' (Some ''RS-010''))])))
     \<le> max_speed_percent (current_state (init_machine 0 NORMAL 1000))"
proof -
  have e: "snd (run_calls (init_machine 0 NORMAL 1000)
          [(1, RequestSlow 50 ''Rule RS-020'' (Some ''RS-020'')),
           (2, RequestStop ''Rule RS-010'' (Some ''RS-010''))]) =
     [(RequestSlow 50 ''Rule RS-020'' (Some ''RS-020''),
       \<lparr>from_state = NORMAL, to_state = SLOW_50, tr_timestamp = 1,
        trigger = ''Rule RS-020'', rule_id = Some ''RS-020'', tr_data = []\<rparr>),
      (RequestStop ''Rule RS-010'' (Some ''RS-010''),
       \<lparr>from_state = SLOW_50, to_state = STOP, tr_timestamp = 2,
        trigger = ''Rule RS-010'', rule_id = Some ''RS-010'', tr_data = []\<rparr>)]"
    by (simp add: init_machine_def request_slow_def request_stop_def
                  transition_to_def can_transition_to_def Let_def)
  have t: "STOP \<in> set (VALID_TRANSITIONS SLOW_50) \<and> SLOW_50 \<noteq> RECOVERY \<and> STOP \<noteq> RECOVERY"
          "NORMAL \<in> set (VALID_TRANSITIONS SLOW_50) \<and> SLOW_50 \<noteq> RECOVERY \<and> NORMAL \<noteq> RECOVERY"
    by simp_all
  note c = max_speed_non_increasing_off_raising_entries[of "init_machine 0 NORMAL 1000"
            "[(1, RequestSlow 50 ''Rule RS-020'' (Some ''RS-020'')),
              (2, RequestStop ''Rule RS-010'' (Some ''RS-010''))]"]
  from conjunct1[OF c, rule_format, OF t(1)]
  have a1: "max_speed_percent STOP \<le> max_speed_percent SLOW_50" by simp
  from conjunct1[OF c, rule_format, OF t(2)]
  have a2: "\<not> max_speed_percent NORMAL \<le> max_speed_percent SLOW_50" by simp
  have a3: "max_speed_percent (current_state (fst (run_calls (init_machine 0 NORMAL 1000)
          [(1, RequestSlow 50 ''Rule RS-020'' (Some ''RS-020'')),
           (2, RequestStop ''Rule RS-010'' (Some ''RS-010''))])))
     \<le> max_speed_percent (current_state (init_machine 0 NORMAL 1000))"
    by (rule conjunct2[OF c, rule_format]) (unfold e, auto)
  from a1 a2 a3 e t show ?thesis by simp
qed

text \<open>
  Claim C3, as stated, fails for a direct call of \<open>transition_to\<close> with \<open>force=True\<close>: from
  \<open>ESTOP\<close> it appends the transition to \<open>NORMAL\<close>, which is not in the table and was issued
  neither by \<open>request_estop\<close> nor by \<open>enter_fallback\<close>.
\<close>

theorem direct_forced_transition_off_table:
  "snd (run_calls (init_machine 0 INIT 1000)
          [(1, RequestEstop ''emergency'' None),
           (2, TransitionTo NORMAL ''override'' None None True)]) =
     [(RequestEstop ''emergency'' None,
       \<lparr>from_state = INIT, to_state = ESTOP, tr_timestamp = 1,
        trigger = ''emergency'', rule_id = None, tr_data = []\<rparr>),
      (TransitionTo NORMAL ''override'' None None True,
       \<lparr>from_state = ESTOP, to_state = NORMAL, tr_timestamp = 2,
        trigger = ''override'', rule_id = None, tr_data = []\<rparr>)] \<and>
   history (fst (run_calls (init_machine 0 INIT 1000)
          [(1, RequestEstop ''emergency'' None),
           (2, TransitionTo NORMAL ''override'' None None True)])) =
     [\<lparr>from_state = INIT, to_state = ESTOP, tr_timestamp = 1,
        trigger = ''emergency'', rule_id = None, tr_data = []\<rparr>,
      \<lparr>from_state = ESTOP, to_state = NORMAL, tr_timestamp = 2,
        trigger = ''override'', rule_id = None, tr_data = []\<rparr>] \<and>
   NORMAL \<notin> set (VALID_TRANSITIONS ESTOP) \<and>
   \<not> is_request_estop (TransitionTo NORMAL ''override'' None None True) \<and>
   \<not> is_enter_fallback (TransitionTo NORMAL ''override'' None None True)"
  by (simp add: init_machine_def request_estop_def
                transition_to_def can_transition_to_def Let_def)

text \<open>
  Claim C3, amended: for every run of calls of \<open>transition_to\<close> with \<open>force=False\<close> and of the
  convenience requests, every emitted transition has its target in the table entry of its
  source, or was issued by \<open>request_estop\<close> with target \<open>ESTOP\<close> or by \<open>enter_fallback\<close> with
  target \<open>FALLBACK\<close>; and every record of the final history is a record of the initial
  history or one of these emitted transitions.
\<close>

theorem emitted_transitions_legal_or_wrapper_forced:
  assumes "\<forall>(now, c) \<in> set cs. \<not> forced_directly c"
  shows "(\<forall>(c, t) \<in> set (snd (run_calls sm cs)).
            to_state t \<in> set (VALID_TRANSITIONS (from_state t)) \<or>
            (is_request_estop c \<and> to_state t = ESTOP) \<or>
            (is_enter_fallback c \<and> to_state t = FALLBACK)) \<and>
         set (history (fst (run_calls sm cs)))
           \<subseteq> set (history sm) \<union> snd ` set (snd (run_calls sm cs))"
  using assms by (rule run_calls_legal)

theorem emitted_transitions_witness:
  "list_all (\<lambda>(now, c). \<not> forced_directly c)
     [(1::real, RequestEstop ''Rule RS-001'' (Some ''RS-001'')),
      (2, EnterFallback ''ia_comm_lost''),
      (3, RequestNormal ''all_clear'')] \<and>
   snd (run_calls (init_machine 0 INIT 1000)
          [(1, RequestEstop ''Rule RS-001'' (Some ''RS-001'')),
           (2, EnterFallback ''ia_comm_lost''),
           (3, RequestNormal ''all_clear'')]) =
     [(RequestEstop ''Rule RS-001'' (Some ''RS-001''),
       \<lparr>from_state = INIT, to_state = ESTOP, tr_timestamp = 1,
        trigger = ''Rule RS-001'', rule_id = Some ''RS-001'', tr_data = []\<rparr>),
      (EnterFallback ''ia_comm_lost'',
       \<lparr>from_state = ESTOP, to_state = FALLBACK, tr_timestamp = 2,
        trigger = ''ia_comm_lost'', rule_id = None, tr_data = []\<rparr>),
      (RequestNormal ''all_clear'',
       \<lparr>from_state = FALLBACK, to_state = NORMAL, tr_timestamp = 3,
        trigger = ''all_clear'', rule_id = None, tr_data = []\<rparr>)] \<and>
   FALLBACK \<notin> set (VALID_TRANSITIONS ESTOP) \<and>
   list_all (\<lambda>(c, t). to_state t \<in> set (VALID_TRANSITIONS (from_state t)) \<or>
                      (is_request_estop c \<and> to_state t = ESTOP) \<or>
                      (is_enter_fallback c \<and> to_state t = FALLBACK))
     (snd (run_calls (init_machine 0 INIT 1000)
          [(1, RequestEstop ''Rule RS-001'' (Some ''RS-001'')),
           (2, EnterFallback ''ia_comm_lost''),
           (3, RequestNormal ''all_clear'')]))"
proof -
  have h: "\<forall>(now, c) \<in> set [(1::real, RequestEstop ''Rule RS-001'' (Some ''RS-001'')),
                        (2, EnterFallback ''ia_comm_lost''),
                        (3, RequestNormal ''all_clear'')]. \<not> forced_directly c"
    by simp
  have h': "list_all (\<lambda>(now, c). \<not> forced_directly c)
     [(1::real, RequestEstop ''Rule RS-001'' (Some ''RS-001'')),
      (2, EnterFallback ''ia_comm_lost''),
      (3, RequestNormal ''all_clear'')]"
    by simp
  have e: "snd (run_calls (init_machine 0 INIT 1000)
          [(1, RequestEstop ''Rule RS-001'' (Some ''RS-001'')),
           (2, EnterFallback ''ia_comm_lost''),
           (3, RequestNormal ''all_clear'')]) =
     [(RequestEstop ''Rule RS-001'' (Some ''RS-001''),
       \<lparr>from_state = INIT, to_state = ESTOP, tr_timestamp = 1,
        trigger = ''Rule RS-001'', rule_id = Some ''RS-001'', tr_data = []\<rparr>),
      (EnterFallback ''ia_comm_lost'',
       \<lparr>from_state = ESTOP, to_state = FALLBACK, tr_timestamp = 2,
        trigger = ''ia_comm_lost'', rule_id = None, tr_data = []\<rparr>),
      (RequestNormal ''all_clear'',
       \<lparr>from_state = FALLBACK, to_state = NORMAL, tr_timestamp = 3,
        trigger = ''all_clear'', rule_id = None, tr_data = []\<rparr>)]"
    by (simp add: init_machine_def request_estop_def enter_fallback_def request_normal_def
                  transition_to_def can_transition_to_def Let_def)
  have n: "FALLBACK \<notin> set (VALID_TRANSITIONS ESTOP)" by simp
  have k: "list_all (\<lambda>(c, t). to_state t \<in> set (VALID_TRANSITIONS (from_state t)) \<or>
                      (is_request_estop c \<and> to_state t = ESTOP) \<or>
                      (is_enter_fallback c \<and> to_state t = FALLBACK))
     (snd (run_calls (init_machine 0 INIT 1000)
          [(1, RequestEstop ''Rule RS-001'' (Some ''RS-001'')),
           (2, EnterFallback ''ia_comm_lost''),
           (3, RequestNormal ''all_clear'')]))"
    unfolding list_all_iff
    using emitted_transitions_legal_or_wrapper_forced[OF h, of "init_machine 0 INIT 1000"]
    by (rule conjunct1)
  show ?thesis by (intro conjI) (rule h', rule e, rule n, rule k)
qed

text \<open>
  Claim C4: \<open>transition_to\<close> with the current state as target returns true and leaves the
  whole machine unchanged (state, previous state, history, duration timer), emitting
  nothing; with \<open>force=False\<close> and a target that differs from the current state and is not in
  its table entry (that is, a target that \<open>can_transition_to\<close> refuses), it returns false and
  leaves the whole machine unchanged.
\<close>

theorem transition_to_noop_or_reject:
  "(target = current_state sm \<longrightarrow>
      transition_to now sm target trig rid dat force = (sm, True, None)) \<and>
   (target \<noteq> current_state sm \<and> target \<notin> set (VALID_TRANSITIONS (current_state sm)) \<longrightarrow>
      transition_to now sm target trig rid dat False = (sm, False, None)) \<and>
   (\<not> can_transition_to sm target \<longrightarrow>
      transition_to now sm target trig rid dat False = (sm, False, None))"
  by (simp add: transition_to_def can_transition_to_def)

theorem transition_to_noop_or_reject_witness:
  "transition_to 5 (init_machine 0 NORMAL 1000) NORMAL ''same'' None None True =
     (init_machine 0 NORMAL 1000, True, None) \<and>
   RECOVERY \<noteq> current_state (init_machine 0 INIT 1000) \<and>
   RECOVERY \<notin> set (VALID_TRANSITIONS (current_state (init_machine 0 INIT 1000))) \<and>
   \<not> can_transition_to (init_machine 0 INIT 1000) RECOVERY \<and>
   transition_to 5 (init_machine 0 INIT 1000) RECOVERY ''invalid'' None None False =
     (init_machine 0 INIT 1000, False, None)"
  using transition_to_noop_or_reject[of NORMAL "init_machine 0 NORMAL 1000" 5 "''same''" None None True]
        transition_to_noop_or_reject[of RECOVERY "init_machine 0 INIT 1000" 5 "''invalid''" None None False]
  by (simp add: init_machine_def can_transition_to_def)

section \<open>Properties of the signal manager and of rule RS-002\<close>

lemma map_of_check_entries:
  "map_of (fst (check_entries now defs sigs)) k =
     (case map_of sigs k of
        None \<Rightarrow> None
      | Some s \<Rightarrow>
          (case map_of defs k of
             None \<Rightarrow> Some s
           | Some d \<Rightarrow> if expired now d s then Some (timed_out k s) else Some s))"
  by (induction sigs) (auto split: prod.splits option.splits)

lemma count_check_entries:
  "snd (check_entries now defs sigs) =
     length (filter (\<lambda>(k, s). case map_of defs k of None \<Rightarrow> False
                               | Some d \<Rightarrow> expired now d s) sigs)"
proof (induction sigs)
  case Nil
  show ?case by simp
next
  case (Cons e sigs)
  obtain k s where e: "e = (k, s)" by (cases e)
  obtain rest n where r: "check_entries now defs sigs = (rest, n)"
    by (cases "check_entries now defs sigs")
  show ?case
  proof (cases "map_of defs k")
    case None
    with Cons.IH e r show ?thesis by simp
  next
    case (Some d)
    with Cons.IH e r show ?thesis by (cases "expired now d s") simp_all
  qed
qed

lemma keys_check_entries:
  "map fst (fst (check_entries now defs sigs)) = map fst sigs"
  by (induction sigs) (auto split: prod.splits option.splits)

lemma update_keys_present:
  "map_of al k = Some v \<Longrightarrow> map fst (AList.update k w al) = map fst al"
  by (induction al) (auto split: if_splits)

lemma map_of_get_signal_values:
  "map_of (get_signal_values m) k = map_option sig_value (map_of (signals m) k)"
proof -
  have "map_of (map (\<lambda>(signal_id, signal). (signal_id, sig_value signal)) xs) k =
        map_option sig_value (map_of xs k)" for xs :: "(string \<times> Signal) list"
    by (induction xs) auto
  then show ?thesis by (simp add: get_signal_values_def)
qed

lemma RS_002_condition:
  "condition RS_002 (get_signal_values m) =
     Some (case get_signal m ''plc_heartbeat'' of None \<Rightarrow> True
           | Some s \<Rightarrow> sig_value s = PyNone)"
  by (simp add: RS_002_def snap_get_def map_of_get_signal_values get_signal_def
           split: option.split)

lemma RS_002_after_watchdog_substitution:
  assumes "get_signal m ''plc_heartbeat'' = Some s"
      and "map_of (definitions m) ''plc_heartbeat'' = Some d"
      and "expired now d s"
  shows "condition RS_002 (get_signal_values (check_timeouts now m)) =
           Some (fail_safe_value s = PyNone)"
proof -
  obtain sigs n where ce: "check_entries now (definitions m) (signals m) = (sigs, n)"
    by (cases "check_entries now (definitions m) (signals m)")
  have "get_signal (check_timeouts now m) ''plc_heartbeat'' =
          Some (timed_out ''plc_heartbeat'' s)"
    using map_of_check_entries[of now "definitions m" "signals m" "''plc_heartbeat''"] assms
    by (simp add: check_timeouts_def ce get_signal_def)
  then show ?thesis by (simp add: RS_002_condition timed_out_def)
qed

lemma RS_002_fires_without_heartbeat:
  "fst (snd (evaluate_rule 1 \<lparr>eng_trigger_count = 0, eng_error_count = 0\<rparr>
               empty_manager (init_machine 0 NORMAL 1000) RS_002)) =
     \<lparr>current_state = ESTOP, previous_state = Some NORMAL, max_history = 1000,
      history = [\<lparr>from_state = NORMAL, to_state = ESTOP, tr_timestamp = 1,
                  trigger = ''Rule RS-002'', rule_id = Some ''RS-002'', tr_data = []\<rparr>],
      state_entered_at = 1\<rparr>"
  by (simp add: evaluate_rule_def RS_002_def can_trigger_def get_signal_values_def
                snap_get_def empty_manager_def init_machine_def execute_action_def
                request_estop_def transition_to_def can_transition_to_def Let_def)

lemmas store_eval = register_signal_def update_signal_def check_timeouts_def get_signal_def
  empty_manager_def plc_heartbeat_definition_def expired_def timed_out_def Let_def

text \<open>
  Claim C1: after the heartbeat has gone unrefreshed for longer than its timeout and a
  watchdog pass has marked it \<open>TIMEOUT\<close>, rule RS-002 should fire and drive the machine to
  \<open>ESTOP\<close>. The code does not do this for the heartbeat of the welding cell: the watchdog
  stores the fail-safe value 0, the predicate of RS-002 tests for \<open>None\<close>, so the rule does not
  trigger and the machine stays in \<open>NORMAL\<close>. The theorem evaluates the code on this input:
  registration, one good update at time 0, a watchdog pass at 0.6 s (timeout 0.5 s), and the
  evaluation of RS-002 at 0.61 s.
\<close>

theorem heartbeat_timeout_leaves_RS_002_untriggered:
  "get_signal (check_timeouts (6/10) (fst (update_signal 0
       (register_signal 0 plc_heartbeat_definition empty_manager)
       ''plc_heartbeat'' (PyInt 12345) GOOD None))) ''plc_heartbeat'' =
     Some \<lparr>sig_id = ''plc_heartbeat'', sig_name = ''Heartbeat PLC'', sig_source = PLC_SAFETY,
           sig_value = PyInt 0, timestamp = 0, quality = TIMEOUT, sig_unit = '''',
           min_value = None, max_value = None, fail_safe_value = PyInt 0\<rparr> \<and>
   condition RS_002 (get_signal_values (check_timeouts (6/10) (fst (update_signal 0
       (register_signal 0 plc_heartbeat_definition empty_manager)
       ''plc_heartbeat'' (PyInt 12345) GOOD None)))) = Some False \<and>
   fst (snd (evaluate_rule (61/100) \<lparr>eng_trigger_count = 0, eng_error_count = 0\<rparr>
      (check_timeouts (6/10) (fst (update_signal 0
         (register_signal 0 plc_heartbeat_definition empty_manager)
         ''plc_heartbeat'' (PyInt 12345) GOOD None)))
      (init_machine 0 NORMAL 1000) RS_002)) = init_machine 0 NORMAL 1000 \<and>
   snd (snd (snd (evaluate_rule (61/100) \<lparr>eng_trigger_count = 0, eng_error_count = 0\<rparr>
      (check_timeouts (6/10) (fst (update_signal 0
         (register_signal 0 plc_heartbeat_definition empty_manager)
         ''plc_heartbeat'' (PyInt 12345) GOOD None)))
      (init_machine 0 NORMAL 1000) RS_002))) =
     \<lparr>res_rule_id = ''RS-002'', triggered = False,
      condition_values = [(''plc_heartbeat'', PyInt 0)],
      actions_executed = [], res_error = False\<rparr> \<and>
   current_state (init_machine 0 NORMAL 1000) \<noteq> ESTOP"
  by (simp add: store_eval RS_002_def evaluate_rule_def can_trigger_def get_signal_values_def
                snap_get_def init_machine_def)

text \<open>
  Claim C5, as stated, fails on its last part: an observation of quality \<open>BAD\<close> that is older
  than its timeout does not keep its quality, the watchdog pass makes it \<open>TIMEOUT\<close>. It also
  fails for an observation that is already \<open>TIMEOUT\<close>: a second pass, at which its age still
  exceeds the timeout, does not increment the timeout counter again.
\<close>

theorem watchdog_turns_bad_into_timeout:
  "get_signal (fst (update_signal 0
       (register_signal 0 plc_heartbeat_definition empty_manager)
       ''plc_heartbeat'' (PyInt 7) BAD None)) ''plc_heartbeat'' =
     Some \<lparr>sig_id = ''plc_heartbeat'', sig_name = ''Heartbeat PLC'', sig_source = PLC_SAFETY,
           sig_value = PyInt 7, timestamp = 0, quality = BAD, sig_unit = '''',
           min_value = None, max_value = None, fail_safe_value = PyInt 0\<rparr> \<and>
   (1 - 0) * 1000 > timeout_ms plc_heartbeat_definition \<and>
   get_signal (check_timeouts 1 (fst (update_signal 0
       (register_signal 0 plc_heartbeat_definition empty_manager)
       ''plc_heartbeat'' (PyInt 7) BAD None))) ''plc_heartbeat'' =
     Some \<lparr>sig_id = ''plc_heartbeat'', sig_name = ''Heartbeat PLC'', sig_source = PLC_SAFETY,
           sig_value = PyInt 0, timestamp = 0, quality = TIMEOUT, sig_unit = '''',
           min_value = None, max_value = None, fail_safe_value = PyInt 0\<rparr> \<and>
   timeout_count (check_timeouts 1 (fst (update_signal 0
       (register_signal 0 plc_heartbeat_definition empty_manager)
       ''plc_heartbeat'' (PyInt 7) BAD None))) = 1 \<and>
   (2 - 0) * 1000 > timeout_ms plc_heartbeat_definition \<and>
   timeout_count (check_timeouts 2 (check_timeouts 1 (fst (update_signal 0
       (register_signal 0 plc_heartbeat_definition empty_manager)
       ''plc_heartbeat'' (PyInt 7) BAD None)))) = 1"
  by (simp add: store_eval)

text \<open>
  Claim C5, amended: a single watchdog pass replaces every observation of a defined signal
  whose age exceeds the timeout of its definition and whose quality is not already
  \<open>TIMEOUT\<close> (so also one of quality \<open>BAD\<close>) by an observation that carries the fail-safe value
  and quality \<open>TIMEOUT\<close>, and leaves every other observation as it is; the timeout counter
  grows by the number of observations replaced; keys and definitions are unchanged.
\<close>

theorem watchdog_pass_replaces_expired_observations:
  "(\<forall>k s d. get_signal m k = Some s \<and> map_of (definitions m) k = Some d \<longrightarrow>
      get_signal (check_timeouts now m) k =
        (if (now - timestamp s) * 1000 > timeout_ms d \<and> quality s \<noteq> TIMEOUT
         then Some \<lparr>sig_id = k, sig_name = sig_name s, sig_source = sig_source s,
                    sig_value = fail_safe_value s, timestamp = timestamp s,
                    quality = TIMEOUT, sig_unit = sig_unit s, min_value = None,
                    max_value = None, fail_safe_value = fail_safe_value s\<rparr>
         else Some s)) \<and>
   timeout_count (check_timeouts now m) =
     timeout_count m +
     length (filter (\<lambda>(k, s). case map_of (definitions m) k of
                                 None \<Rightarrow> False
                               | Some d \<Rightarrow> (now - timestamp s) * 1000 > timeout_ms d \<and>
                                           quality s \<noteq> TIMEOUT) (signals m)) \<and>
   map fst (signals (check_timeouts now m)) = map fst (signals m) \<and>
   definitions (check_timeouts now m) = definitions m"
proof -
  obtain sigs n where ce: "check_entries now (definitions m) (signals m) = (sigs, n)"
    by (cases "check_entries now (definitions m) (signals m)")
  have ct: "check_timeouts now m = m\<lparr>signals := sigs, timeout_count := timeout_count m + n\<rparr>"
    by (simp add: check_timeouts_def ce)
  have a: "\<forall>k s d. get_signal m k = Some s \<and> map_of (definitions m) k = Some d \<longrightarrow>
      get_signal (check_timeouts now m) k =
        (if (now - timestamp s) * 1000 > timeout_ms d \<and> quality s \<noteq> TIMEOUT
         then Some \<lparr>sig_id = k, sig_name = sig_name s, sig_source = sig_source s,
                    sig_value = fail_safe_value s, timestamp = timestamp s,
                    quality = TIMEOUT, sig_unit = sig_unit s, min_value = None,
                    max_value = None, fail_safe_value = fail_safe_value s\<rparr>
         else Some s)"
    using map_of_check_entries[of now "definitions m" "signals m"] ce
    by (simp add: ct get_signal_def expired_def timed_out_def)
  have b: "timeout_count (check_timeouts now m) =
     timeout_count m +
     length (filter (\<lambda>(k, s). case map_of (definitions m) k of
                                 None \<Rightarrow> False
                               | Some d \<Rightarrow> (now - timestamp s) * 1000 > timeout_ms d \<and>
                                           quality s \<noteq> TIMEOUT) (signals m))"
    using count_check_entries[of now "definitions m" "signals m", unfolded expired_def]
    by (simp add: ct ce)
  have c: "map fst (signals (check_timeouts now m)) = map fst (signals m)"
    using keys_check_entries[of now "definitions m" "signals m"] ce by (simp add: ct)
  have d: "definitions (check_timeouts now m) = definitions m" by (simp add: ct)
  from a b c d show ?thesis by (intro conjI)
qed

theorem watchdog_pass_witness:
  "get_signal (fst (update_signal 0
       (register_signal 0 plc_heartbeat_definition empty_manager)
       ''plc_heartbeat'' (PyInt 12345) GOOD None)) ''plc_heartbeat'' =
     Some \<lparr>sig_id = ''plc_heartbeat'', sig_name = ''Heartbeat PLC'', sig_source = PLC_SAFETY,
           sig_value = PyInt 12345, timestamp = 0, quality = GOOD, sig_unit = '''',
           min_value = None, max_value = None, fail_safe_value = PyInt 0\<rparr> \<and>
   map_of (definitions (fst (update_signal 0
       (register_signal 0 plc_heartbeat_definition empty_manager)
       ''plc_heartbeat'' (PyInt 12345) GOOD None))) ''plc_heartbeat'' =
     Some plc_heartbeat_definition \<and>
   get_signal (check_timeouts 1 (fst (update_signal 0
       (register_signal 0 plc_heartbeat_definition empty_manager)
       ''plc_heartbeat'' (PyInt 12345) GOOD None))) ''plc_heartbeat'' =
     Some \<lparr>sig_id = ''plc_heartbeat'', sig_name = ''Heartbeat PLC'', sig_source = PLC_SAFETY,
           sig_value = PyInt 0, timestamp = 0, quality = TIMEOUT, sig_unit = '''',
           min_value = None, max_value = None, fail_safe_value = PyInt 0\<rparr> \<and>
   timeout_count (check_timeouts 1 (fst (update_signal 0
       (register_signal 0 plc_heartbeat_definition empty_manager)
       ''plc_heartbeat'' (PyInt 12345) GOOD None))) = 1"
proof -
  let ?m = "fst (update_signal 0
       (register_signal 0 plc_heartbeat_definition empty_manager)
       ''plc_heartbeat'' (PyInt 12345) GOOD None)"
  let ?s = "\<lparr>sig_id = ''plc_heartbeat'', sig_name = ''Heartbeat PLC'', sig_source = PLC_SAFETY,
           sig_value = PyInt 12345, timestamp = 0, quality = GOOD, sig_unit = '''',
           min_value = None, max_value = None, fail_safe_value = PyInt 0\<rparr>"
  have g: "get_signal ?m ''plc_heartbeat'' = Some ?s" by (simp add: store_eval)
  have d: "map_of (definitions ?m) ''plc_heartbeat'' = Some plc_heartbeat_definition"
    by (simp add: store_eval)
  have sg: "signals ?m = [(''plc_heartbeat'', ?s)]" by (simp add: store_eval)
  have df: "definitions ?m = [(''plc_heartbeat'', plc_heartbeat_definition)]"
    by (simp add: store_eval)
  have tc: "timeout_count ?m = 0" by (simp add: store_eval)
  note c = watchdog_pass_replaces_expired_observations[of ?m 1]
  from conjunct1[OF c, rule_format, of "''plc_heartbeat''" ?s plc_heartbeat_definition] g d
  have a: "get_signal (check_timeouts 1 ?m) ''plc_heartbeat'' =
     Some \<lparr>sig_id = ''plc_heartbeat'', sig_name = ''Heartbeat PLC'', sig_source = PLC_SAFETY,
           sig_value = PyInt 0, timestamp = 0, quality = TIMEOUT, sig_unit = '''',
           min_value = None, max_value = None, fail_safe_value = PyInt 0\<rparr>"
    by (simp add: plc_heartbeat_definition_def)
  from conjunct1[OF conjunct2[OF c]]
  have b: "timeout_count (check_timeouts 1 ?m) = 1"
    unfolding sg df tc by (simp add: plc_heartbeat_definition_def)
  from g d a b show ?thesis by (intro conjI)
qed

text \<open>
  Claim C9, as stated, fails on the stored observation: registering the same definition a
  second time, after an update, discards the updated observation and stores the initial
  one again (fail-safe value, quality \<open>UNKNOWN\<close>, fresh timestamp).
\<close>

theorem register_again_discards_update:
  "get_signal (fst (update_signal 1
       (register_signal 0 plc_heartbeat_definition empty_manager)
       ''plc_heartbeat'' (PyInt 12345) GOOD None)) ''plc_heartbeat'' =
     Some \<lparr>sig_id = ''plc_heartbeat'', sig_name = ''Heartbeat PLC'', sig_source = PLC_SAFETY,
           sig_value = PyInt 12345, timestamp = 1, quality = GOOD, sig_unit = '''',
           min_value = None, max_value = None, fail_safe_value = PyInt 0\<rparr> \<and>
   get_signal (register_signal 2 plc_heartbeat_definition (fst (update_signal 1
       (register_signal 0 plc_heartbeat_definition empty_manager)
       ''plc_heartbeat'' (PyInt 12345) GOOD None))) ''plc_heartbeat'' =
     Some \<lparr>sig_id = ''plc_heartbeat'', sig_name = ''Heartbeat PLC'', sig_source = PLC_SAFETY,
           sig_value = PyInt 0, timestamp = 2, quality = UNKNOWN, sig_unit = '''',
           min_value = None, max_value = None, fail_safe_value = PyInt 0\<rparr>"
  by (simp add: store_eval)

text \<open>
  Claim C9, amended: registering again a definition identical to the registered one leaves
  the definitions, the registered keys (hence their number) and the observations of all
  other signals unchanged, and resets the stored observation of the signal to the initial
  one: fail-safe value, quality \<open>UNKNOWN\<close>, timestamp of the second registration.
\<close>

theorem register_again_resets_observation:
  assumes "map_of (definitions m) (def_id d) = Some d"
      and "get_signal m (def_id d) = Some s"
  shows "definitions (register_signal now d m) = definitions m \<and>
         map fst (signals (register_signal now d m)) = map fst (signals m) \<and>
         get_signal (register_signal now d m) (def_id d) =
           Some \<lparr>sig_id = def_id d, sig_name = def_name d, sig_source = def_source d,
                 sig_value = def_fail_safe_value d, timestamp = now, quality = UNKNOWN,
                 sig_unit = def_unit d, min_value = def_min_value d,
                 max_value = def_max_value d, fail_safe_value = def_fail_safe_value d\<rparr> \<and>
         (\<forall>k. k \<noteq> def_id d \<longrightarrow>
              get_signal (register_signal now d m) k = get_signal m k)"
proof (intro conjI allI impI)
  show "definitions (register_signal now d m) = definitions m"
    using assms(1) by (simp add: register_signal_def update_triv)
  show "map fst (signals (register_signal now d m)) = map fst (signals m)"
    using assms(2) by (simp add: register_signal_def get_signal_def update_keys_present)
  show "get_signal (register_signal now d m) (def_id d) =
           Some \<lparr>sig_id = def_id d, sig_name = def_name d, sig_source = def_source d,
                 sig_value = def_fail_safe_value d, timestamp = now, quality = UNKNOWN,
                 sig_unit = def_unit d, min_value = def_min_value d,
                 max_value = def_max_value d, fail_safe_value = def_fail_safe_value d\<rparr>"
    by (simp add: register_signal_def get_signal_def update_conv')
  fix k assume "k \<noteq> def_id d"
  then show "get_signal (register_signal now d m) k = get_signal m k"
    by (simp add: register_signal_def get_signal_def update_conv')
qed

theorem register_again_witness:
  "map_of (definitions (fst (update_signal 1
       (register_signal 0 plc_heartbeat_definition empty_manager)
       ''plc_heartbeat'' (PyInt 12345) GOOD None))) (def_id plc_heartbeat_definition) =
     Some plc_heartbeat_definition \<and>
   get_signal (fst (update_signal 1
       (register_signal 0 plc_heartbeat_definition empty_manager)
       ''plc_heartbeat'' (PyInt 12345) GOOD None)) (def_id plc_heartbeat_definition) =
     Some \<lparr>sig_id = ''plc_heartbeat'', sig_name = ''Heartbeat PLC'', sig_source = PLC_SAFETY,
           sig_value = PyInt 12345, timestamp = 1, quality = GOOD, sig_unit = '''',
           min_value = None, max_value = None, fail_safe_value = PyInt 0\<rparr> \<and>
   definitions (register_signal 2 plc_heartbeat_definition (fst (update_signal 1
       (register_signal 0 plc_heartbeat_definition empty_manager)
       ''plc_heartbeat'' (PyInt 12345) GOOD None))) =
     [(''plc_heartbeat'', plc_heartbeat_definition)] \<and>
   map fst (signals (register_signal 2 plc_heartbeat_definition (fst (update_signal 1
       (register_signal 0 plc_heartbeat_definition empty_manager)
       ''plc_heartbeat'' (PyInt 12345) GOOD None)))) = [''plc_heartbeat'']"
proof -
  let ?m = "fst (update_signal 1
       (register_signal 0 plc_heartbeat_definition empty_manager)
       ''plc_heartbeat'' (PyInt 12345) GOOD None)"
  let ?s = "\<lparr>sig_id = ''plc_heartbeat'', sig_name = ''Heartbeat PLC'', sig_source = PLC_SAFETY,
           sig_value = PyInt 12345, timestamp = 1, quality = GOOD, sig_unit = '''',
           min_value = None, max_value = None, fail_safe_value = PyInt 0\<rparr>"
  have d: "map_of (definitions ?m) (def_id plc_heartbeat_definition) = Some plc_heartbeat_definition"
    by (simp add: store_eval)
  have g: "get_signal ?m (def_id plc_heartbeat_definition) = Some ?s"
    by (simp add: store_eval)
  have df: "definitions ?m = [(''plc_heartbeat'', plc_heartbeat_definition)]"
    by (simp add: store_eval)
  have sg: "map fst (signals ?m) = [''plc_heartbeat'']" by (simp add: store_eval)
  note c = register_again_resets_observation[OF d g, of 2]
  from c df have a: "definitions (register_signal 2 plc_heartbeat_definition ?m) =
     [(''plc_heartbeat'', plc_heartbeat_definition)]" by simp
  from c sg have b: "map fst (signals (register_signal 2 plc_heartbeat_definition ?m)) =
     [''plc_heartbeat'']" by simp
  from d g a b show ?thesis by (intro conjI)
qed

lemma get_signal_check_timeouts:
  "get_signal (check_timeouts now m) k =
     (case get_signal m k of
        None \<Rightarrow> None
      | Some s \<Rightarrow>
          (case map_of (definitions m) k of
             None \<Rightarrow> Some s
           | Some d \<Rightarrow> if expired now d s then Some (timed_out k s) else Some s))"
proof -
  obtain sigs n where ce: "check_entries now (definitions m) (signals m) = (sigs, n)"
    by (cases "check_entries now (definitions m) (signals m)")
  show ?thesis
    using map_of_check_entries[of now "definitions m" "signals m" k]
    by (simp add: check_timeouts_def ce get_signal_def)
qed

lemma get_signal_register_other:
  "def_id d \<noteq> k \<Longrightarrow> get_signal (register_signal now d m) k = get_signal m k"
  by (simp add: register_signal_def get_signal_def update_conv')

lemma get_signal_update_other:
  "k' \<noteq> k \<Longrightarrow> get_signal (fst (update_signal now m k' v q ts)) k = get_signal m k"
  by (simp add: update_signal_def get_signal_def update_conv' Let_def split: option.split)

lemma definitions_do_op_other:
  assumes "\<not> writes_signal k opn"
  shows "map_of (definitions (do_op now m opn)) k = map_of (definitions m) k"
proof (cases opn)
  case (Register d)
  with assms show ?thesis by (simp add: register_signal_def update_conv')
next
  case (Update k' v q ts)
  then show ?thesis by (simp add: update_signal_def Let_def split: option.split)
next
  case Watchdog
  then show ?thesis by (simp add: check_timeouts_def split: prod.split)
qed

lemma get_signal_do_op_other:
  assumes "\<not> writes_signal k opn" and "opn \<noteq> Watchdog"
  shows "get_signal (do_op now m opn) k = get_signal m k"
proof (cases opn)
  case (Register d)
  with assms show ?thesis by (simp add: get_signal_register_other)
next
  case (Update k' v q ts)
  with assms show ?thesis by (simp add: get_signal_update_other)
next
  case Watchdog
  with assms show ?thesis by simp
qed

lemma run_ops_timed_out:
  assumes "\<forall>(now, opn) \<in> set ops. \<not> writes_signal k opn"
      and "get_signal m k = Some s" and "quality s = TIMEOUT"
  shows "get_signal (run_ops m ops) k = Some s"
  using assms
proof (induction ops arbitrary: m)
  case Nil
  then show ?case by simp
next
  case (Cons e ops)
  obtain now opn where e: "e = (now, opn)" by (cases e)
  from Cons.prems(1) e have nw: "\<not> writes_signal k opn"
    and tl: "\<forall>(now, opn) \<in> set ops. \<not> writes_signal k opn" by auto
  have "get_signal (do_op now m opn) k = Some s"
  proof (cases "opn = Watchdog")
    case True
    with Cons.prems(2,3) show ?thesis
      by (simp add: get_signal_check_timeouts expired_def split: option.split)
  next
    case False
    with nw Cons.prems(2) show ?thesis by (simp add: get_signal_do_op_other)
  qed
  from Cons.IH[OF tl this Cons.prems(3)] e show ?case by simp
qed

lemma run_ops_unwritten_quality:
  assumes "\<forall>(now, opn) \<in> set ops. \<not> writes_signal k opn"
      and "get_signal m k = Some s" and "quality s \<noteq> TIMEOUT"
      and "map_of (definitions m) k = Some d"
  shows "get_signal (run_ops m ops) k =
           Some (if \<exists>(now, opn) \<in> set ops.
                      opn = Watchdog \<and> (now - timestamp s) * 1000 > timeout_ms d
                 then timed_out k s else s)"
  using assms
proof (induction ops arbitrary: m)
  case Nil
  then show ?case by simp
next
  case (Cons e ops)
  obtain now opn where e: "e = (now, opn)" by (cases e)
  from Cons.prems(1) e have nw: "\<not> writes_signal k opn"
    and tl: "\<forall>(now, opn) \<in> set ops. \<not> writes_signal k opn" by auto
  have defs: "map_of (definitions (do_op now m opn)) k = Some d"
    using definitions_do_op_other[OF nw] Cons.prems(4) by simp
  show ?case
  proof (cases "opn = Watchdog \<and> (now - timestamp s) * 1000 > timeout_ms d")
    case True
    with Cons.prems(2,3,4)
    have g: "get_signal (do_op now m opn) k = Some (timed_out k s)"
      by (simp add: get_signal_check_timeouts expired_def)
    have q: "quality (timed_out k s) = TIMEOUT" by (simp add: timed_out_def)
    from run_ops_timed_out[OF tl g q]
    have "get_signal (run_ops (do_op now m opn) ops) k = Some (timed_out k s)" .
    with True e show ?thesis by simp
  next
    case False
    have g: "get_signal (do_op now m opn) k = Some s"
    proof (cases "opn = Watchdog")
      case True
      with False Cons.prems(2,4) show ?thesis
        by (simp add: get_signal_check_timeouts expired_def)
    next
      case F: False
      with nw Cons.prems(2) show ?thesis by (simp add: get_signal_do_op_other)
    qed
    from Cons.IH[OF tl g Cons.prems(3) defs] False e show ?thesis by auto
  qed
qed

text \<open>
  Claim C10, as stated, fails on the stored quality: a registered signal that is never
  updated does not keep quality \<open>UNKNOWN\<close>; the first watchdog pass that finds it older than
  its timeout stores quality \<open>TIMEOUT\<close>.
\<close>

theorem unwritten_signal_times_out:
  "\<not> writes_signal ''plc_heartbeat'' Watchdog \<and>
   get_signal (run_ops (register_signal 0 plc_heartbeat_definition empty_manager)
                 [(6/10, Watchdog)]) ''plc_heartbeat'' =
     Some \<lparr>sig_id = ''plc_heartbeat'', sig_name = ''Heartbeat PLC'', sig_source = PLC_SAFETY,
           sig_value = PyInt 0, timestamp = 0, quality = TIMEOUT, sig_unit = [],
           min_value = None, max_value = None, fail_safe_value = PyInt 0\<rparr> \<and>
   TIMEOUT \<noteq> UNKNOWN"
  by (simp add: store_eval)

text \<open>
  Claim C10, amended: for every registered signal that has not been written since its
  registration (no \<open>update_signal\<close> and no new \<open>register_signal\<close> for it, whatever happens to
  other signals), the stored quality is \<open>UNKNOWN\<close> as long as no watchdog pass has found the
  observation older than the timeout of its definition, and \<open>TIMEOUT\<close> from the first such
  pass on; in both cases the stored value is the fail-safe value, the timestamp is that of
  the registration, and \<open>get_signal_value\<close> with \<open>use_failsafe_if_invalid=True\<close> returns the
  fail-safe value of the definition, not the caller's default; for every stored
  observation, \<open>get_signal_value\<close> returns the value when the quality is \<open>GOOD\<close> or
  \<open>DEGRADED\<close> and the fail-safe value for every other quality, so \<open>UNKNOWN\<close> is read like
  \<open>BAD\<close> and \<open>TIMEOUT\<close>.
\<close>

theorem unknown_reads_fail_safe:
  assumes "\<forall>(now, opn) \<in> set ops. \<not> writes_signal (def_id d) opn"
  shows "(\<exists>s. get_signal (run_ops (register_signal now0 d m) ops) (def_id d) = Some s \<and>
             quality s =
               (if \<exists>(now, opn) \<in> set ops.
                     opn = Watchdog \<and> (now - now0) * 1000 > timeout_ms d
                then TIMEOUT else UNKNOWN) \<and>
             sig_value s = def_fail_safe_value d \<and>
             fail_safe_value s = def_fail_safe_value d \<and>
             timestamp s = now0) \<and>
         get_signal_value (run_ops (register_signal now0 d m) ops) (def_id d) dflt True =
           def_fail_safe_value d \<and>
         (get_signal m' k = Some s' \<longrightarrow>
            get_signal_value m' k dflt' True =
              (if quality s' = GOOD \<or> quality s' = DEGRADED then sig_value s'
               else fail_safe_value s'))"
proof -
  let ?s0 = "\<lparr>sig_id = def_id d, sig_name = def_name d, sig_source = def_source d,
              sig_value = def_fail_safe_value d, timestamp = now0, quality = UNKNOWN,
              sig_unit = def_unit d, min_value = def_min_value d,
              max_value = def_max_value d, fail_safe_value = def_fail_safe_value d\<rparr>"
  let ?hit = "\<exists>(now, opn) \<in> set ops. opn = Watchdog \<and> (now - now0) * 1000 > timeout_ms d"
  let ?m = "run_ops (register_signal now0 d m) ops"
  have g0: "get_signal (register_signal now0 d m) (def_id d) = Some ?s0"
    by (simp add: register_signal_def get_signal_def update_conv')
  have d0: "map_of (definitions (register_signal now0 d m)) (def_id d) = Some d"
    by (simp add: register_signal_def update_conv')
  have q0: "quality ?s0 \<noteq> TIMEOUT" by simp
  from run_ops_unwritten_quality[OF assms g0 q0 d0]
  have g: "get_signal ?m (def_id d) = Some (if ?hit then timed_out (def_id d) ?s0 else ?s0)"
    by simp
  define s where "s = (if ?hit then timed_out (def_id d) ?s0 else ?s0)"
  have gs: "get_signal ?m (def_id d) = Some s" using g by (simp add: s_def)
  have qs: "quality s = (if ?hit then TIMEOUT else UNKNOWN)"
    by (simp add: s_def timed_out_def)
  have vs: "sig_value s = def_fail_safe_value d" by (simp add: s_def timed_out_def)
  have fs: "fail_safe_value s = def_fail_safe_value d" by (simp add: s_def timed_out_def)
  have ts: "timestamp s = now0" by (simp add: s_def timed_out_def)
  from gs qs vs fs ts
  have a: "\<exists>s. get_signal ?m (def_id d) = Some s \<and>
             quality s = (if ?hit then TIMEOUT else UNKNOWN) \<and>
             sig_value s = def_fail_safe_value d \<and>
             fail_safe_value s = def_fail_safe_value d \<and>
             timestamp s = now0"
    by blast
  have nv: "\<not> is_valid s" using qs by (simp add: is_valid_def)
  have b: "get_signal_value ?m (def_id d) dflt True = def_fail_safe_value d"
    using gs nv fs by (simp add: get_signal_value_def get_signal_def)
  have c: "get_signal m' k = Some s' \<longrightarrow>
           get_signal_value m' k dflt' True =
             (if quality s' = GOOD \<or> quality s' = DEGRADED then sig_value s'
              else fail_safe_value s')"
    by (auto simp: get_signal_value_def get_signal_def is_valid_def)
  from a b c show ?thesis by (intro conjI)
qed

theorem unknown_reads_fail_safe_witness:
  "list_all (\<lambda>(now, opn). \<not> writes_signal (def_id plc_heartbeat_definition) opn)
     [(1/10, Watchdog), (2/10, Update ''estop_status'' (PyInt 0) GOOD None)] \<and>
   \<not> (1/10 - 0) * 1000 > timeout_ms plc_heartbeat_definition \<and>
   get_signal (run_ops (register_signal 0 plc_heartbeat_definition empty_manager)
                 [(1/10, Watchdog), (2/10, Update ''estop_status'' (PyInt 0) GOOD None)])
     ''plc_heartbeat'' =
     Some \<lparr>sig_id = ''plc_heartbeat'', sig_name = ''Heartbeat PLC'', sig_source = PLC_SAFETY,
           sig_value = PyInt 0, timestamp = 0, quality = UNKNOWN, sig_unit = [],
           min_value = None, max_value = None, fail_safe_value = PyInt 0\<rparr> \<and>
   list_all (\<lambda>(now, opn). \<not> writes_signal (def_id plc_heartbeat_definition) opn)
     [(1/10, Watchdog), (6/10, Watchdog)] \<and>
   (6/10 - 0) * 1000 > timeout_ms plc_heartbeat_definition \<and>
   get_signal (run_ops (register_signal 0 plc_heartbeat_definition empty_manager)
                 [(1/10, Watchdog), (6/10, Watchdog)])
     ''plc_heartbeat'' =
     Some \<lparr>sig_id = ''plc_heartbeat'', sig_name = ''Heartbeat PLC'', sig_source = PLC_SAFETY,
           sig_value = PyInt 0, timestamp = 0, quality = TIMEOUT, sig_unit = [],
           min_value = None, max_value = None, fail_safe_value = PyInt 0\<rparr> \<and>
   get_signal_value (run_ops (register_signal 0 plc_heartbeat_definition empty_manager)
                 [(1/10, Watchdog), (6/10, Watchdog)])
     ''plc_heartbeat'' (PyInt 99) True = PyInt 0 \<and>
   get_signal_value (run_ops (register_signal 0 plc_heartbeat_definition empty_manager)
                 [(1/10, Watchdog), (2/10, Update ''estop_status'' (PyInt 0) GOOD None)])
     ''plc_heartbeat'' (PyInt 99) True = PyInt 0"
proof -
  let ?opsA = "[(1/10, Watchdog), (2/10, Update ''estop_status'' (PyInt 0) GOOD None)]"
  let ?opsB = "[(1/10, Watchdog), (6/10, Watchdog)]"
  let ?m0 = "register_signal 0 plc_heartbeat_definition empty_manager"
  let ?sU = "\<lparr>sig_id = ''plc_heartbeat'', sig_name = ''Heartbeat PLC'', sig_source = PLC_SAFETY,
           sig_value = PyInt 0, timestamp = 0, quality = UNKNOWN, sig_unit = [],
           min_value = None, max_value = None, fail_safe_value = PyInt 0\<rparr>"
  let ?sT = "\<lparr>sig_id = ''plc_heartbeat'', sig_name = ''Heartbeat PLC'', sig_source = PLC_SAFETY,
           sig_value = PyInt 0, timestamp = 0, quality = TIMEOUT, sig_unit = [],
           min_value = None, max_value = None, fail_safe_value = PyInt 0\<rparr>"
  have hA: "\<forall>(now, opn) \<in> set ?opsA. \<not> writes_signal (def_id plc_heartbeat_definition) opn"
    by (simp add: plc_heartbeat_definition_def)
  have hB: "\<forall>(now, opn) \<in> set ?opsB. \<not> writes_signal (def_id plc_heartbeat_definition) opn"
    by (simp add: plc_heartbeat_definition_def)
  have lA: "list_all (\<lambda>(now, opn). \<not> writes_signal (def_id plc_heartbeat_definition) opn) ?opsA"
    by (simp add: plc_heartbeat_definition_def)
  have lB: "list_all (\<lambda>(now, opn). \<not> writes_signal (def_id plc_heartbeat_definition) opn) ?opsB"
    by (simp add: plc_heartbeat_definition_def)
  have tA: "\<not> (1/10 - 0) * 1000 > timeout_ms plc_heartbeat_definition"
    by (simp add: plc_heartbeat_definition_def)
  have tB: "(6/10 - 0) * 1000 > timeout_ms plc_heartbeat_definition"
    by (simp add: plc_heartbeat_definition_def)
  have gA: "get_signal (run_ops ?m0 ?opsA) ''plc_heartbeat'' = Some ?sU"
    by (simp add: store_eval)
  have gB: "get_signal (run_ops ?m0 ?opsB) ''plc_heartbeat'' = Some ?sT"
    by (simp add: store_eval)
  note cA = unknown_reads_fail_safe[OF hA, of 0 empty_manager "PyInt 99" ?m0 "''plc_heartbeat''" ?sU "PyInt 99"]
  note cB = unknown_reads_fail_safe[OF hB, of 0 empty_manager "PyInt 99" ?m0 "''plc_heartbeat''" ?sU "PyInt 99"]
  from conjunct1[OF conjunct2[OF cB]]
  have vB: "get_signal_value (run_ops ?m0 ?opsB) ''plc_heartbeat'' (PyInt 99) True = PyInt 0"
    by (simp add: plc_heartbeat_definition_def)
  from conjunct1[OF conjunct2[OF cA]]
  have vA: "get_signal_value (run_ops ?m0 ?opsA) ''plc_heartbeat'' (PyInt 99) True = PyInt 0"
    by (simp add: plc_heartbeat_definition_def)
  show ?thesis by (intro conjI) (rule lA, rule tA, rule gA, rule lB, rule tB, rule gB, rule vB, rule vA)
qed

section \<open>Properties of the agents\<close>

lemma collision_band:
  "(rs_score (calculate_collision_risk cs), rs_level (calculate_collision_risk cs)) =
     (let ttc = time_to_collision (an_get_signal_value cs ''scanner_min_distance'' 10000)
                                  (an_get_signal_value cs ''fanuc_tcp_speed'' 0)
      in if ttc_below ttc 0.5 then (100, CRITICAL)
         else if ttc_below ttc 1 then (80, HIGH)
         else if ttc_below ttc 2 then (50, MEDIUM)
         else if ttc_below ttc 5 then (25, LOW)
         else (0, NONE))"
  by (simp add: calculate_collision_risk_def Let_def)

lemma determine_action_default:
  "determine_action default_decision_config sc =
     (if sc \<ge> 95 then (D_ESTOP, U_IMMEDIATE)
      else if sc \<ge> 80 then (D_STOP, U_IMMEDIATE)
      else if sc \<ge> 65 then (D_SLOW_25, U_HIGH)
      else if sc \<ge> 50 then (D_SLOW_50, U_HIGH)
      else if sc \<ge> 25 then (D_ALERT, U_NORMAL)
      else (D_NONE, U_LOW))"
  by (simp add: determine_action_def default_decision_config_def)

lemma hd_sort_key:
  fixes f :: "'a \<Rightarrow> 'b::linorder"
  assumes "xs \<noteq> []"
  defines "w \<equiv> hd (sort_key f xs)"
  shows "w \<in> set xs" and "\<forall>x \<in> set xs. f w \<le> f x"
    and "w = hd (filter (\<lambda>x. f x = f w) xs)"
proof -
  let ?ys = "sort_key f xs"
  from assms(1) have ne: "?ys \<noteq> []" by (metis length_sort length_0_conv)
  then obtain y ys where ys: "?ys = y # ys" by (cases ?ys) auto
  then have w: "w = y" by (simp add: w_def)
  have "set ?ys = set xs" by simp
  with ys show in_set: "w \<in> set xs" unfolding w by (metis list.set_intros(1))
  have "sorted (map f ?ys)" by (rule sorted_sort_key)
  with ys have "\<forall>x \<in> set ys. f y \<le> f x" by simp
  with ys \<open>set ?ys = set xs\<close> show "\<forall>x \<in> set xs. f w \<le> f x"
    unfolding w by (metis order_refl set_ConsD)
  have "filter (\<lambda>x. f x = f w) xs = filter (\<lambda>x. f x = f w) ?ys"
    by (simp add: sort_key_stable)
  also have "\<dots> = y # filter (\<lambda>x. f x = f w) ys" unfolding ys w by simp
  finally show "w = hd (filter (\<lambda>x. f x = f w) xs)" by (simp add: w)
qed

lemma hd_sort_key_stable:
  assumes "xs \<noteq> []" and "mset ys = mset xs"
      and keep: "filter P ys = filter P xs"
      and P: "\<And>x. f x = f (hd (sort_key f xs)) \<Longrightarrow> P x"
  shows "hd (sort_key f ys) = hd (sort_key f xs)"
proof -
  let ?w = "hd (sort_key f xs)" and ?w' = "hd (sort_key f ys)"
  from assms(1,2) have ne: "ys \<noteq> []" by auto
  from assms(2) have sets: "set ys = set xs" by (rule mset_eq_setD)
  note a = hd_sort_key[OF assms(1), of f] and b = hd_sort_key[OF ne, of f]
  from a(1) b(2) sets have "f ?w' \<le> f ?w" by auto
  moreover from b(1) a(2) sets have "f ?w \<le> f ?w'" by auto
  ultimately have eq: "f ?w' = f ?w" by simp
  have "filter (\<lambda>x. f x = f ?w) ys = filter (\<lambda>x. f x = f ?w) (filter P ys)"
    using P by (auto intro: filter_cong)
  also have "\<dots> = filter (\<lambda>x. f x = f ?w) (filter P xs)" by (simp only: keep)
  also have "\<dots> = filter (\<lambda>x. f x = f ?w) xs"
    using P by (auto intro: filter_cong)
  finally have "filter (\<lambda>x. f x = f ?w) ys = filter (\<lambda>x. f x = f ?w) xs" .
  with b(3) eq a(3) show ?thesis by simp
qed

lemma arbitration_key_le:
  "arbitration_key now w \<le> arbitration_key now r \<longleftrightarrow>
     urgency_key w < urgency_key r \<or>
     urgency_key w = urgency_key r \<and>
       (risk_score_of r < risk_score_of w \<or>
        risk_score_of r = risk_score_of w \<and> received_key now w \<le> received_key now r)"
  by (auto simp: arbitration_key_def less_eq_prod_def)

lemma sort_key_eq_Nil: "sort_key f xs = [] \<longleftrightarrow> xs = []"
  by (metis length_sort length_0_conv)

lemma arbitrate_nonempty:
  "pending \<noteq> [] \<Longrightarrow>
   arbitrate_recommendations now pending =
     (Some (hd (sort_key (arbitration_key now) pending)), [])"
  by (simp add: arbitrate_recommendations_def Let_def sort_key_eq_Nil)

lemma urgency_order_values:
  "urgency_order ''IMMEDIATE'' = Some 0" "urgency_order ''HIGH'' = Some 1"
  "urgency_order ''NORMAL'' = Some 2" "urgency_order ''LOW'' = Some 3"
  by (simp_all add: urgency_order_def)

lemma urgency_key_explicit:
  "urgency_key r =
     (if p_urgency r = Some ''IMMEDIATE'' then 0
      else if p_urgency r = Some ''HIGH'' then 1
      else if p_urgency r = Some ''NORMAL'' then 2
      else if p_urgency r = Some ''LOW'' \<or> p_urgency r = None then 3
      else 4)"
  by (cases "p_urgency r") (simp_all add: urgency_key_def urgency_order_def)

text \<open>
  Claim C6: on a non-empty pending list the arbitration selects an element of the list that
  is best by urgency (IMMEDIATE before HIGH before NORMAL before LOW, an absent urgency
  counting as LOW and any other value coming last), then by higher risk score (an absent
  score counting as 0), then by earlier reception, the first such element of the list when
  several agree on all three, and leaves the pending list empty; the selection is stable:
  any permutation of the list that keeps the order of the elements whose (urgency, risk
  score) is not strictly lower than the winner's selects the same winner. The ranks, the
  scores and the reception times are spelled out on the fields of the recommendations.
\<close>

theorem arbitration_selects_best_and_is_stable:
  fixes pending :: "Recommendation list" and now :: datetime
  defines "rank \<equiv> \<lambda>r. if p_urgency r = Some ''IMMEDIATE'' then 0::nat
                        else if p_urgency r = Some ''HIGH'' then 1
                        else if p_urgency r = Some ''NORMAL'' then 2
                        else if p_urgency r = Some ''LOW'' \<or> p_urgency r = None then 3
                        else 4"
      and "risk \<equiv> \<lambda>r. case p_risk_score r of None \<Rightarrow> 0::real | Some x \<Rightarrow> x"
      and "received \<equiv> \<lambda>r. case p_received_at r of None \<Rightarrow> now | Some t \<Rightarrow> t"
  assumes "pending \<noteq> []"
  shows "\<exists>w. arbitrate_recommendations now pending = (Some w, []) \<and> w \<in> set pending \<and>
           (\<forall>r \<in> set pending.
              rank w < rank r \<or>
              rank w = rank r \<and>
                (risk r < risk w \<or> risk r = risk w \<and> received w \<le> received r)) \<and>
           w = hd (filter (\<lambda>r. rank r = rank w \<and> risk r = risk w \<and> received r = received w)
                     pending) \<and>
           (\<forall>ys. mset ys = mset pending \<and>
                 filter (\<lambda>r. \<not> (rank w < rank r \<or> rank w = rank r \<and> risk r < risk w)) ys =
                 filter (\<lambda>r. \<not> (rank w < rank r \<or> rank w = rank r \<and> risk r < risk w))
                   pending \<longrightarrow>
                 arbitrate_recommendations now ys = (Some w, []))"
proof -
  have rk: "urgency_key = rank"
    by (rule ext) (simp only: urgency_key_explicit rank_def)
  have rs: "risk_score_of = risk"
    by (rule ext) (simp add: risk_score_of_def risk_def)
  have rc: "received_key now = received"
    by (rule ext) (simp add: received_key_def received_def)
  let ?f = "arbitration_key now"
  let ?w = "hd (sort_key ?f pending)"
  note a = hd_sort_key[OF assms(4), of ?f]
  have keyeq: "?f r = ?f ?w \<longleftrightarrow>
                 rank r = rank ?w \<and> risk r = risk ?w \<and> received r = received ?w" for r
    by (auto simp: arbitration_key_def rk rs rc)
  have sel: "arbitrate_recommendations now pending = (Some ?w, [])"
    using assms(4) by (rule arbitrate_nonempty)
  have best: "\<forall>r \<in> set pending.
              rank ?w < rank r \<or>
              rank ?w = rank r \<and>
                (risk r < risk ?w \<or> risk r = risk ?w \<and> received ?w \<le> received r)"
    using a(2) by (simp only: arbitration_key_le rk rs rc)
  have first: "?w = hd (filter (\<lambda>r. rank r = rank ?w \<and> risk r = risk ?w \<and>
                                     received r = received ?w) pending)"
    using a(3) by (simp only: keyeq)
  have stable: "\<forall>ys. mset ys = mset pending \<and>
                 filter (\<lambda>r. \<not> (rank ?w < rank r \<or> rank ?w = rank r \<and> risk r < risk ?w)) ys =
                 filter (\<lambda>r. \<not> (rank ?w < rank r \<or> rank ?w = rank r \<and> risk r < risk ?w))
                   pending \<longrightarrow>
                 arbitrate_recommendations now ys = (Some ?w, [])"
  proof (intro allI impI, elim conjE)
    fix ys
    assume m: "mset ys = mset pending"
      and k: "filter (\<lambda>r. \<not> (rank ?w < rank r \<or> rank ?w = rank r \<and> risk r < risk ?w)) ys =
              filter (\<lambda>r. \<not> (rank ?w < rank r \<or> rank ?w = rank r \<and> risk r < risk ?w))
                pending"
    from assms(4) m have ne: "ys \<noteq> []" by auto
    have "hd (sort_key ?f ys) = ?w"
    proof (rule hd_sort_key_stable[OF assms(4) m k])
      fix x assume "?f x = ?f ?w"
      then have "rank x = rank ?w \<and> risk x = risk ?w" by (simp only: keyeq)
      then show "\<not> (rank ?w < rank x \<or> rank ?w = rank x \<and> risk x < risk ?w)" by simp
    qed
    with arbitrate_nonempty[OF ne, of now]
    show "arbitrate_recommendations now ys = (Some ?w, [])" by simp
  qed
  from sel a(1) best first stable show ?thesis by blast
qed

theorem arbitration_witness:
  "[\<lparr>p_id = ''rec0'', p_action = ''LOG'', p_urgency = None,
      p_risk_score = Some 100, p_received_at = Some (1/2)\<rparr>,
    \<lparr>p_id = ''rec1'', p_action = ''ALERT'', p_urgency = Some ''NORMAL'',
      p_risk_score = Some 90, p_received_at = Some 1\<rparr>,
    \<lparr>p_id = ''rec2'', p_action = ''STOP'', p_urgency = Some ''IMMEDIATE'',
      p_risk_score = Some 20, p_received_at = Some (3/2)\<rparr>,
    \<lparr>p_id = ''rec3'', p_action = ''STOP'', p_urgency = Some ''IMMEDIATE'',
      p_risk_score = Some 30, p_received_at = Some 5\<rparr>,
    \<lparr>p_id = ''rec4'', p_action = ''ESTOP'', p_urgency = Some ''IMMEDIATE'',
      p_risk_score = Some 30, p_received_at = Some 2\<rparr>,
    \<lparr>p_id = ''rec5'', p_action = ''SLOW_50'', p_urgency = Some ''HIGH'',
      p_risk_score = Some 60, p_received_at = Some 3\<rparr>] \<noteq> [] \<and>
   arbitrate_recommendations 10
     [\<lparr>p_id = ''rec0'', p_action = ''LOG'', p_urgency = None,
       p_risk_score = Some 100, p_received_at = Some (1/2)\<rparr>,
      \<lparr>p_id = ''rec1'', p_action = ''ALERT'', p_urgency = Some ''NORMAL'',
       p_risk_score = Some 90, p_received_at = Some 1\<rparr>,
      \<lparr>p_id = ''rec2'', p_action = ''STOP'', p_urgency = Some ''IMMEDIATE'',
       p_risk_score = Some 20, p_received_at = Some (3/2)\<rparr>,
      \<lparr>p_id = ''rec3'', p_action = ''STOP'', p_urgency = Some ''IMMEDIATE'',
       p_risk_score = Some 30, p_received_at = Some 5\<rparr>,
      \<lparr>p_id = ''rec4'', p_action = ''ESTOP'', p_urgency = Some ''IMMEDIATE'',
       p_risk_score = Some 30, p_received_at = Some 2\<rparr>,
      \<lparr>p_id = ''rec5'', p_action = ''SLOW_50'', p_urgency = Some ''HIGH'',
       p_risk_score = Some 60, p_received_at = Some 3\<rparr>] =
     (Some \<lparr>p_id = ''rec4'', p_action = ''ESTOP'', p_urgency = Some ''IMMEDIATE'',
            p_risk_score = Some 30, p_received_at = Some 2\<rparr>, []) \<and>
   mset [\<lparr>p_id = ''rec5'', p_action = ''SLOW_50'', p_urgency = Some ''HIGH'',
           p_risk_score = Some 60, p_received_at = Some 3\<rparr>,
         \<lparr>p_id = ''rec3'', p_action = ''STOP'', p_urgency = Some ''IMMEDIATE'',
           p_risk_score = Some 30, p_received_at = Some 5\<rparr>,
         \<lparr>p_id = ''rec1'', p_action = ''ALERT'', p_urgency = Some ''NORMAL'',
           p_risk_score = Some 90, p_received_at = Some 1\<rparr>,
         \<lparr>p_id = ''rec4'', p_action = ''ESTOP'', p_urgency = Some ''IMMEDIATE'',
           p_risk_score = Some 30, p_received_at = Some 2\<rparr>,
         \<lparr>p_id = ''rec2'', p_action = ''STOP'', p_urgency = Some ''IMMEDIATE'',
           p_risk_score = Some 20, p_received_at = Some (3/2)\<rparr>,
         \<lparr>p_id = ''rec0'', p_action = ''LOG'', p_urgency = None,
           p_risk_score = Some 100, p_received_at = Some (1/2)\<rparr>] =
   mset [\<lparr>p_id = ''rec0'', p_action = ''LOG'', p_urgency = None,
           p_risk_score = Some 100, p_received_at = Some (1/2)\<rparr>,
         \<lparr>p_id = ''rec1'', p_action = ''ALERT'', p_urgency = Some ''NORMAL'',
           p_risk_score = Some 90, p_received_at = Some 1\<rparr>,
         \<lparr>p_id = ''rec2'', p_action = ''STOP'', p_urgency = Some ''IMMEDIATE'',
           p_risk_score = Some 20, p_received_at = Some (3/2)\<rparr>,
         \<lparr>p_id = ''rec3'', p_action = ''STOP'', p_urgency = Some ''IMMEDIATE'',
           p_risk_score = Some 30, p_received_at = Some 5\<rparr>,
         \<lparr>p_id = ''rec4'', p_action = ''ESTOP'', p_urgency = Some ''IMMEDIATE'',
           p_risk_score = Some 30, p_received_at = Some 2\<rparr>,
         \<lparr>p_id = ''rec5'', p_action = ''SLOW_50'', p_urgency = Some ''HIGH'',
           p_risk_score = Some 60, p_received_at = Some 3\<rparr>] \<and>
   arbitrate_recommendations 10
     [\<lparr>p_id = ''rec5'', p_action = ''SLOW_50'', p_urgency = Some ''HIGH'',
       p_risk_score = Some 60, p_received_at = Some 3\<rparr>,
      \<lparr>p_id = ''rec3'', p_action = ''STOP'', p_urgency = Some ''IMMEDIATE'',
       p_risk_score = Some 30, p_received_at = Some 5\<rparr>,
      \<lparr>p_id = ''rec1'', p_action = ''ALERT'', p_urgency = Some ''NORMAL'',
       p_risk_score = Some 90, p_received_at = Some 1\<rparr>,
      \<lparr>p_id = ''rec4'', p_action = ''ESTOP'', p_urgency = Some ''IMMEDIATE'',
       p_risk_score = Some 30, p_received_at = Some 2\<rparr>,
      \<lparr>p_id = ''rec2'', p_action = ''STOP'', p_urgency = Some ''IMMEDIATE'',
       p_risk_score = Some 20, p_received_at = Some (3/2)\<rparr>,
      \<lparr>p_id = ''rec0'', p_action = ''LOG'', p_urgency = None,
       p_risk_score = Some 100, p_received_at = Some (1/2)\<rparr>] =
     (Some \<lparr>p_id = ''rec4'', p_action = ''ESTOP'', p_urgency = Some ''IMMEDIATE'',
            p_risk_score = Some 30, p_received_at = Some 2\<rparr>, [])"
proof -
  let ?r0 = "\<lparr>p_id = ''rec0'', p_action = ''LOG'', p_urgency = None,
      p_risk_score = Some 100, p_received_at = Some (1/2)\<rparr>"
  let ?r1 = "\<lparr>p_id = ''rec1'', p_action = ''ALERT'', p_urgency = Some ''NORMAL'',
      p_risk_score = Some 90, p_received_at = Some 1\<rparr>"
  let ?r2 = "\<lparr>p_id = ''rec2'', p_action = ''STOP'', p_urgency = Some ''IMMEDIATE'',
      p_risk_score = Some 20, p_received_at = Some (3/2)\<rparr>"
  let ?r3 = "\<lparr>p_id = ''rec3'', p_action = ''STOP'', p_urgency = Some ''IMMEDIATE'',
      p_risk_score = Some 30, p_received_at = Some 5\<rparr>"
  let ?r4 = "\<lparr>p_id = ''rec4'', p_action = ''ESTOP'', p_urgency = Some ''IMMEDIATE'',
      p_risk_score = Some 30, p_received_at = Some 2\<rparr>"
  let ?r5 = "\<lparr>p_id = ''rec5'', p_action = ''SLOW_50'', p_urgency = Some ''HIGH'',
      p_risk_score = Some 60, p_received_at = Some 3\<rparr>"
  let ?P = "[?r0, ?r1, ?r2, ?r3, ?r4, ?r5]"
  let ?Y = "[?r5, ?r3, ?r1, ?r4, ?r2, ?r0]"
  let ?rank = "\<lambda>r. if p_urgency r = Some ''IMMEDIATE'' then 0::nat
                        else if p_urgency r = Some ''HIGH'' then 1
                        else if p_urgency r = Some ''NORMAL'' then 2
                        else if p_urgency r = Some ''LOW'' \<or> p_urgency r = None then 3
                        else 4"
  let ?risk = "\<lambda>r. case p_risk_score r of None \<Rightarrow> 0::real | Some x \<Rightarrow> x"
  have ne: "?P \<noteq> []" by simp
  have k: "arbitration_key 10 ?r0 = (3, -100, 1/2)" "arbitration_key 10 ?r1 = (2, -90, 1)"
          "arbitration_key 10 ?r2 = (0, -20, 3/2)" "arbitration_key 10 ?r3 = (0, -30, 5)"
          "arbitration_key 10 ?r4 = (0, -30, 2)" "arbitration_key 10 ?r5 = (1, -60, 3)"
    by (simp_all add: arbitration_key_def urgency_key_def urgency_order_def risk_score_of_def
                      received_key_def)
  have sel: "arbitrate_recommendations 10 ?P = (Some ?r4, [])"
    by (simp add: arbitrate_recommendations_def Let_def k less_eq_prod_def)
  have ex: "\<exists>w. arbitrate_recommendations 10 ?P = (Some w, []) \<and>
           (\<forall>ys. mset ys = mset ?P \<and>
                 filter (\<lambda>r. \<not> (?rank w < ?rank r \<or> ?rank w = ?rank r \<and> ?risk r < ?risk w)) ys =
                 filter (\<lambda>r. \<not> (?rank w < ?rank r \<or> ?rank w = ?rank r \<and> ?risk r < ?risk w))
                   ?P \<longrightarrow>
                 arbitrate_recommendations 10 ys = (Some w, []))"
    using arbitration_selects_best_and_is_stable[OF ne, of 10] by blast
  then obtain w where
    w: "arbitrate_recommendations 10 ?P = (Some w, [])"
    and st: "\<forall>ys. mset ys = mset ?P \<and>
                 filter (\<lambda>r. \<not> (?rank w < ?rank r \<or> ?rank w = ?rank r \<and> ?risk r < ?risk w)) ys =
                 filter (\<lambda>r. \<not> (?rank w < ?rank r \<or> ?rank w = ?rank r \<and> ?risk r < ?risk w))
                   ?P \<longrightarrow>
                 arbitrate_recommendations 10 ys = (Some w, [])"
    by blast
  from w sel have weq: "w = ?r4" by simp
  have perm: "mset ?Y = mset ?P" by simp
  have keep: "filter (\<lambda>r. \<not> (?rank ?r4 < ?rank r \<or> ?rank ?r4 = ?rank r \<and> ?risk r < ?risk ?r4)) ?Y =
              filter (\<lambda>r. \<not> (?rank ?r4 < ?rank r \<or> ?rank ?r4 = ?rank r \<and> ?risk r < ?risk ?r4)) ?P"
    by simp
  from st[unfolded weq, rule_format, of ?Y] perm keep
  have y: "arbitrate_recommendations 10 ?Y = (Some ?r4, [])" by blast
  show ?thesis by (intro conjI) (rule ne, rule sel, rule perm, rule y)
qed

text \<open>
  Claim C7: with the default configuration, \<open>_evaluate_and_recommend\<close> returns no
  recommendation when the confidence of the global risk is below 0.7, whatever the score;
  otherwise it returns exactly the recommendation of the ladder: score at least 95 gives
  ESTOP/IMMEDIATE, at least 80 STOP/IMMEDIATE, at least 65 SLOW_25/HIGH, at least 50
  SLOW_50/HIGH, at least 25 ALERT/NORMAL, and below 25 none.
\<close>

theorem decision_threshold_ladder:
  assumes "dec_config ag = default_decision_config"
  defines "sc \<equiv> (case g_score (global_risk ag) of None \<Rightarrow> 0 | Some x \<Rightarrow> x)"
      and "conf \<equiv> (case g_confidence (global_risk ag) of None \<Rightarrow> 0 | Some x \<Rightarrow> x)"
  shows "map_option (\<lambda>r. (rec_action r, rec_urgency r, risk_score r, rec_confidence r))
           (fst (evaluate_and_recommend now ag)) =
         (if conf < 0.7 then None
          else if sc \<ge> 95 then Some (D_ESTOP, U_IMMEDIATE, sc, conf)
          else if sc \<ge> 80 then Some (D_STOP, U_IMMEDIATE, sc, conf)
          else if sc \<ge> 65 then Some (D_SLOW_25, U_HIGH, sc, conf)
          else if sc \<ge> 50 then Some (D_SLOW_50, U_HIGH, sc, conf)
          else if sc \<ge> 25 then Some (D_ALERT, U_NORMAL, sc, conf)
          else None)"
proof (cases "conf < 0.7")
  case True
  then show ?thesis
    using assms(1) by (simp add: evaluate_and_recommend_def conf_def default_decision_config_def)
next
  case False
  from False show ?thesis
    unfolding evaluate_and_recommend_def sc_def[symmetric] conf_def[symmetric] assms(1)
      determine_action_default
    by (simp add: Let_def default_decision_config_def)
qed

theorem decision_threshold_ladder_witness:
  "dec_config \<lparr>dec_config = default_decision_config,
               global_risk = \<lparr>g_score = Some 85, g_confidence = Some 0.9\<rparr>,
               current_risks = [(''distance'', Some 80), (''collision'', Some 60)],
               action_id = 0\<rparr> = default_decision_config \<and>
   fst (evaluate_and_recommend 3
         \<lparr>dec_config = default_decision_config,
          global_risk = \<lparr>g_score = Some 85, g_confidence = Some 0.9\<rparr>,
          current_risks = [(''distance'', Some 80), (''collision'', Some 60)],
          action_id = 0\<rparr>) =
     Some \<lparr>rec_number = 1, rec_action = D_STOP, rec_urgency = U_IMMEDIATE,
           risk_category = ''distance'', risk_score = 85, rec_confidence = 0.9,
           rec_timestamp = 3, suppression_duration_s = 2, requires_ack = True,
           auto_execute = True\<rparr> \<and>
   map_option (\<lambda>r. (rec_action r, rec_urgency r, risk_score r, rec_confidence r))
     (fst (evaluate_and_recommend 3
         \<lparr>dec_config = default_decision_config,
          global_risk = \<lparr>g_score = Some 85, g_confidence = Some 0.9\<rparr>,
          current_risks = [(''distance'', Some 80), (''collision'', Some 60)],
          action_id = 0\<rparr>)) = Some (D_STOP, U_IMMEDIATE, 85, 0.9)"
proof -
  let ?ag = "\<lparr>dec_config = default_decision_config,
          global_risk = \<lparr>g_score = Some 85, g_confidence = Some 0.9\<rparr>,
          current_risks = [(''distance'', Some 80), (''collision'', Some 60)],
          action_id = 0\<rparr>"
  have h: "dec_config ?ag = default_decision_config" by simp
  have e: "fst (evaluate_and_recommend 3 ?ag) =
     Some \<lparr>rec_number = 1, rec_action = D_STOP, rec_urgency = U_IMMEDIATE,
           risk_category = ''distance'', risk_score = 85, rec_confidence = 0.9,
           rec_timestamp = 3, suppression_duration_s = 2, requires_ack = True,
           auto_execute = True\<rparr>"
    by (simp add: evaluate_and_recommend_def determine_action_default find_dominant_risk_def
                  can_auto_execute_def default_decision_config_def determine_action_def Let_def)
  from decision_threshold_ladder[OF h, of 3]
  have m: "map_option (\<lambda>r. (rec_action r, rec_urgency r, risk_score r, rec_confidence r))
     (fst (evaluate_and_recommend 3 ?ag)) = Some (D_STOP, U_IMMEDIATE, 85, 0.9)"
    by simp
  from h e m show ?thesis by (intro conjI)
qed

text \<open>
  Claim C8, as stated, fails on when the time to collision is infinite: at distance 5000 mm
  and speed 2000 mm/s the speed is positive and distance / speed is 2.5 s, which the claim
  maps to (25, LOW), but the code takes the time to collision as infinite and gives
  (0, NONE).
\<close>

theorem collision_risk_far_distance_is_none:
  "an_get_signal_value
     [''scanner_min_distance'' \<mapsto> \<lparr>an_value = 5000, an_quality = ''good''\<rparr>,
      ''fanuc_tcp_speed'' \<mapsto> \<lparr>an_value = 2000, an_quality = ''good''\<rparr>]
     ''scanner_min_distance'' 10000 = 5000 \<and>
   an_get_signal_value
     [''scanner_min_distance'' \<mapsto> \<lparr>an_value = 5000, an_quality = ''good''\<rparr>,
      ''fanuc_tcp_speed'' \<mapsto> \<lparr>an_value = 2000, an_quality = ''good''\<rparr>]
     ''fanuc_tcp_speed'' 0 = 2000 \<and>
   \<not> (2000::real) \<le> 0 \<and> (5000::real) / 2000 < 5 \<and> \<not> (5000::real) / 2000 < 2 \<and>
   (rs_score (calculate_collision_risk
      [''scanner_min_distance'' \<mapsto> \<lparr>an_value = 5000, an_quality = ''good''\<rparr>,
       ''fanuc_tcp_speed'' \<mapsto> \<lparr>an_value = 2000, an_quality = ''good''\<rparr>]),
    rs_level (calculate_collision_risk
      [''scanner_min_distance'' \<mapsto> \<lparr>an_value = 5000, an_quality = ''good''\<rparr>,
       ''fanuc_tcp_speed'' \<mapsto> \<lparr>an_value = 2000, an_quality = ''good''\<rparr>])) = (0, NONE)"
  by (simp add: calculate_collision_risk_def an_get_signal_value_def time_to_collision_def)

text \<open>
  Claim C8, amended: the time to collision is distance / speed when the speed is positive
  and the distance is below 5000 mm, and infinite exactly when the speed is not positive or
  the distance is at least 5000 mm; the (score, level) is (100, CRITICAL) below 0.5 s,
  (80, HIGH) below 1 s, (50, MEDIUM) below 2 s, (25, LOW) below 5 s, and (0, NONE) otherwise.
\<close>

theorem collision_risk_bands:
  fixes cs :: current_signals
  defines "d \<equiv> an_get_signal_value cs ''scanner_min_distance'' 10000"
      and "v \<equiv> an_get_signal_value cs ''fanuc_tcp_speed'' 0"
      and "r \<equiv> calculate_collision_risk cs"
  shows "(time_to_collision d v = None \<longleftrightarrow> v \<le> 0 \<or> d \<ge> 5000) \<and>
         (v > 0 \<and> d < 5000 \<longrightarrow> time_to_collision d v = Some (d / v)) \<and>
         (v > 0 \<and> d < 5000 \<and> d / v < 0.5 \<longrightarrow> (rs_score r, rs_level r) = (100, CRITICAL)) \<and>
         (v > 0 \<and> d < 5000 \<and> 0.5 \<le> d / v \<and> d / v < 1 \<longrightarrow>
            (rs_score r, rs_level r) = (80, HIGH)) \<and>
         (v > 0 \<and> d < 5000 \<and> 1 \<le> d / v \<and> d / v < 2 \<longrightarrow>
            (rs_score r, rs_level r) = (50, MEDIUM)) \<and>
         (v > 0 \<and> d < 5000 \<and> 2 \<le> d / v \<and> d / v < 5 \<longrightarrow>
            (rs_score r, rs_level r) = (25, LOW)) \<and>
         (v > 0 \<and> d < 5000 \<and> 5 \<le> d / v \<longrightarrow> (rs_score r, rs_level r) = (0, NONE)) \<and>
         (v \<le> 0 \<or> d \<ge> 5000 \<longrightarrow> (rs_score r, rs_level r) = (0, NONE))"
proof (cases "v > 0 \<and> d < 5000")
  case True
  obtain t where t: "t = d / v" by simp
  from True have ttc: "time_to_collision d v = Some t"
    by (simp add: time_to_collision_def t)
  have band: "(rs_score r, rs_level r) =
     (if t < 0.5 then (100, CRITICAL) else if t < 1 then (80, HIGH)
      else if t < 2 then (50, MEDIUM) else if t < 5 then (25, LOW) else (0, NONE))"
    unfolding r_def collision_band d_def[symmetric] v_def[symmetric] ttc
    by (simp add: Let_def)
  from True have nz: "\<not> (v \<le> 0 \<or> d \<ge> 5000)" by simp
  show ?thesis
    unfolding band ttc t[symmetric] using True nz by simp
next
  case False
  then have ttc: "time_to_collision d v = None"
    by (simp add: time_to_collision_def)
  have band: "(rs_score r, rs_level r) = (0, NONE)"
    unfolding r_def collision_band d_def[symmetric] v_def[symmetric] ttc
    by (simp add: Let_def)
  from False have nz: "v \<le> 0 \<or> d \<ge> 5000" by auto
  show ?thesis
    unfolding band ttc using False nz by blast
qed

theorem collision_risk_bands_witness:
  "an_get_signal_value
     [''scanner_min_distance'' \<mapsto> \<lparr>an_value = 1500, an_quality = ''good''\<rparr>,
      ''fanuc_tcp_speed'' \<mapsto> \<lparr>an_value = 1000, an_quality = ''good''\<rparr>]
     ''scanner_min_distance'' 10000 = 1500 \<and>
   an_get_signal_value
     [''scanner_min_distance'' \<mapsto> \<lparr>an_value = 1500, an_quality = ''good''\<rparr>,
      ''fanuc_tcp_speed'' \<mapsto> \<lparr>an_value = 1000, an_quality = ''good''\<rparr>]
     ''fanuc_tcp_speed'' 0 = 1000 \<and>
   (1000::real) > 0 \<and> (1500::real) < 5000 \<and> (1::real) \<le> 1500 / 1000 \<and>
   (1500::real) / 1000 < 2 \<and>
   (rs_score (calculate_collision_risk
      [''scanner_min_distance'' \<mapsto> \<lparr>an_value = 1500, an_quality = ''good''\<rparr>,
       ''fanuc_tcp_speed'' \<mapsto> \<lparr>an_value = 1000, an_quality = ''good''\<rparr>]),
    rs_level (calculate_collision_risk
      [''scanner_min_distance'' \<mapsto> \<lparr>an_value = 1500, an_quality = ''good''\<rparr>,
       ''fanuc_tcp_speed'' \<mapsto> \<lparr>an_value = 1000, an_quality = ''good''\<rparr>])) = (50, MEDIUM)"
proof -
  let ?cs = "[''scanner_min_distance'' \<mapsto> \<lparr>an_value = 1500, an_quality = ''good''\<rparr>,
      ''fanuc_tcp_speed'' \<mapsto> \<lparr>an_value = 1000, an_quality = ''good''\<rparr>]"
  have d: "an_get_signal_value ?cs ''scanner_min_distance'' 10000 = 1500"
    by (simp add: an_get_signal_value_def)
  have v: "an_get_signal_value ?cs ''fanuc_tcp_speed'' 0 = 1000"
    by (simp add: an_get_signal_value_def)
  have h: "(1000::real) > 0 \<and> (1500::real) < 5000 \<and> (1::real) \<le> 1500 / 1000 \<and>
           (1500::real) / 1000 < 2" by simp
  note c = collision_risk_bands[of ?cs, unfolded d v]
  from c h have b: "(rs_score (calculate_collision_risk ?cs),
                     rs_level (calculate_collision_risk ?cs)) = (50, MEDIUM)"
    by blast
  from d v h b show ?thesis by (intro conjI) simp_all
qed

end
